theory Spec2Isabelle
  imports Complex_Main "HOL-Library.AList" "HOL-Library.Sublist"
begin

section \<open>Numbers and utilities\<close>

text \<open>
  The server is written in JavaScript; every number is a double. The model reads numbers as
  mathematical reals (timestamps, coordinates, speeds) and as integers where the code only
  ever stores whole numbers (hit points, kill counters, the multishot count). Rounding error,
  infinities and NaN are outside the model; where the code can divide by zero the branch is
  written out.
\<close>

definition clamp :: "real \<Rightarrow> real \<Rightarrow> real \<Rightarrow> real" where
  "clamp v lo hi = max lo (min hi v)"

definition hypot :: "real \<Rightarrow> real \<Rightarrow> real" where
  "hypot a b = sqrt (a * a + b * b)"

definition dist_xy :: "real \<Rightarrow> real \<Rightarrow> real \<Rightarrow> real \<Rightarrow> real" where
  "dist_xy x1 y1 x2 y2 = hypot (x2 - x1) (y2 - y1)"

definition length_xy :: "real \<Rightarrow> real \<Rightarrow> real" where
  "length_xy a b = hypot a b"

definition normalize_xy :: "real \<Rightarrow> real \<Rightarrow> real \<times> real" where
  "normalize_xy a b = (let l = length_xy a b in if l = 0 then (0, 0) else (a / l, b / l))"

definition lerp :: "real \<Rightarrow> real \<Rightarrow> real \<Rightarrow> real" where
  "lerp a b t = a + (b - a) * t"

definition circleCollide :: "real \<Rightarrow> real \<Rightarrow> real \<Rightarrow> real \<Rightarrow> real \<Rightarrow> real \<Rightarrow> bool" where
  "circleCollide x1 y1 r1 x2 y2 r2 =
     (let dx = x1 - x2; dy = y1 - y2; rr = r1 + r2 in dx * dx + dy * dy \<le> rr * rr)"

text \<open>\<open>Math.round\<close> rounds halves upwards; \<open>Math.atan2\<close> is the angle of the point \<open>(x, y)\<close>.\<close>

definition js_round :: "real \<Rightarrow> int" where
  "js_round v = \<lfloor>v + 1 / 2\<rfloor>"

definition atan2 :: "real \<Rightarrow> real \<Rightarrow> real" where
  "atan2 b a =
     (if 0 < a then arctan (b / a)
      else if a < 0 then (if 0 \<le> b then arctan (b / a) + pi else arctan (b / a) - pi)
      else if 0 < b then pi / 2
      else if b < 0 then - (pi / 2)
      else 0)"

subsection \<open>The outside world: randomness, identifiers, the clock and timers\<close>

text \<open>
  \<open>Math.random()\<close>, \<open>uuidv4()\<close>, \<open>Date.now()\<close> and \<open>setTimeout\<close> are the
  server's effects. They are threaded through every operation as one record: two
  sequences of draws with a cursor each, the clock reading of the handler that is running,
  and the pending timers (the time each is due, in milliseconds, and its callback).
\<close>

datatype buff = SpeedBuff | FirerateBuff | MultishotBuff

datatype callback =
    BuffExpire string string nat buff
  | RoomGc string

record io =
  rnd :: "nat \<Rightarrow> real"
  rnd_used :: nat
  uuid :: "nat \<Rightarrow> string"
  uuid_used :: nat
  clock :: real
  sched :: "(real \<times> callback) list"

definition random :: "io \<Rightarrow> real \<times> io" where
  "random w = (rnd w (rnd_used w), w\<lparr>rnd_used := Suc (rnd_used w)\<rparr>)"

definition uuidv4 :: "io \<Rightarrow> string \<times> io" where
  "uuidv4 w = (uuid w (uuid_used w), w\<lparr>uuid_used := Suc (uuid_used w)\<rparr>)"

definition setTimeout :: "callback \<Rightarrow> real \<Rightarrow> io \<Rightarrow> io" where
  "setTimeout cb delay w = w\<lparr>sched := sched w @ [(clock w + delay, cb)]\<rparr>"

text \<open>The two loop shapes of the source.\<close>

primrec downfrom :: "nat \<Rightarrow> (nat \<Rightarrow> 's \<Rightarrow> 's) \<Rightarrow> 's \<Rightarrow> 's" where
  \<comment> \<open>\<open>for (let i = n - 1; i >= 0; i--) body(i)\<close>\<close>
  "downfrom 0 body s = s"
| "downfrom (Suc i) body s = downfrom i body (body i s)"

definition upfrom :: "nat \<Rightarrow> (nat \<Rightarrow> 's \<Rightarrow> 's) \<Rightarrow> 's \<Rightarrow> 's" where
  \<comment> \<open>\<open>for (let i = 0; i < n; i++) body(i)\<close>\<close>
  "upfrom n body s = fold body [0..<n] s"

definition splice1 :: "nat \<Rightarrow> 'a list \<Rightarrow> 'a list" where
  \<comment> \<open>\<open>xs.splice(i, 1)\<close>\<close>
  "splice1 i xs = take i xs @ drop (Suc i) xs"

section \<open>Constants and the entity model\<close>

definition TICK_RATE :: real where "TICK_RATE = 60"
definition WORLD_width :: real where "WORLD_width = 2400"
definition WORLD_height :: real where "WORLD_height = 1800"
definition PLAYER_RADIUS :: real where "PLAYER_RADIUS = 16"
definition PLAYER_SPEED :: real where "PLAYER_SPEED = 240"
definition BULLET_SPEED :: real where "BULLET_SPEED = 620"
definition BULLET_RADIUS :: real where "BULLET_RADIUS = 4"
definition BULLET_LIFETIME_MS :: real where "BULLET_LIFETIME_MS = 1200"

datatype mtype = Chaser | Dasher | Orbiter | Splitter | Sniper | Mini

record enemy_spec =
  spec_radius :: real
  spec_baseHp :: int
  spec_baseSpeed :: real

fun ENEMY_TYPES :: "mtype \<Rightarrow> enemy_spec" where
  "ENEMY_TYPES Chaser = \<lparr>spec_radius = 16, spec_baseHp = 3, spec_baseSpeed = 120\<rparr>"
| "ENEMY_TYPES Dasher = \<lparr>spec_radius = 18, spec_baseHp = 4, spec_baseSpeed = 90\<rparr>"
| "ENEMY_TYPES Orbiter = \<lparr>spec_radius = 14, spec_baseHp = 3, spec_baseSpeed = 130\<rparr>"
| "ENEMY_TYPES Splitter = \<lparr>spec_radius = 16, spec_baseHp = 2, spec_baseSpeed = 100\<rparr>"
| "ENEMY_TYPES Sniper = \<lparr>spec_radius = 15, spec_baseHp = 2, spec_baseSpeed = 110\<rparr>"
| "ENEMY_TYPES Mini = \<lparr>spec_radius = 10, spec_baseHp = 1, spec_baseSpeed = 170\<rparr>"

text \<open>
  A monster's \<open>state\<close> object starts empty; the AI adds fields to it. A field that is
  absent (\<open>undefined\<close>) is \<open>None\<close> where the code tests for it; \<open>timer\<close>, \<open>dx\<close> and
  \<open>dy\<close> are written before they are first read, so they are plain numbers here.
\<close>

datatype dmode = Windup | Dash

record mstate =
  st_mode :: "dmode option"
  st_timer :: real
  st_dx :: real
  st_dy :: real
  st_seed :: "real option"
  st_cool :: "real option"

definition empty_state :: mstate where
  "empty_state = \<lparr>st_mode = None, st_timer = 0, st_dx = 0, st_dy = 0, st_seed = None,
     st_cool = None\<rparr>"

record monster =
  m_id :: string
  m_type :: mtype
  m_x :: real
  m_y :: real
  m_vx :: real
  m_vy :: real
  m_radius :: real
  m_hp :: int
  m_maxHp :: int
  m_baseSpeed :: real
  m_state :: mstate

record buffs =
  b_speed :: real
  b_firerate :: real
  b_multishot :: int
  shieldUntil :: real

record abilityCd =
  cd_burst :: real
  cd_dash :: real
  cd_grenade :: real
  cd_beam :: real

text \<open>
  A buff timer holds the player object it was created for. To tell that object from a
  later one stored under the same key, every player record carries the number of the
  object, \<open>p_obj\<close>, fresh at each join; it is no field of the source.
\<close>

record player =
  p_obj :: nat
  p_id :: string
  p_x :: real
  p_y :: real
  dirX :: real
  dirY :: real
  p_up :: bool
  p_down :: bool
  p_left :: bool
  p_right :: bool
  shooting :: bool
  lastShotAt :: real
  color :: int
  kills :: int
  p_radius :: real
  p_buffs :: buffs
  p_abilityCd :: abilityCd
  dashingUntil :: real
  iFramesUntil :: real

record bullet =
  bl_id :: string
  bl_x :: real
  bl_y :: real
  bl_vx :: real
  bl_vy :: real
  createdAt :: real
  bl_ownerId :: string
  bl_radius :: real

record neutral =
  n_id :: string
  n_x :: real
  n_y :: real
  n_r :: real
  n_hp :: int
  n_maxHp :: int
  n_vx :: real
  n_vy :: real
  wanderT :: real

datatype ptype = Speed | Firerate | Multishot | Heal | Shield

record powerup =
  u_id :: string
  u_type :: ptype
  u_x :: real
  u_y :: real
  u_r :: real
  expiresAt :: real

record bomb =
  bm_id :: string
  bm_x :: real
  bm_y :: real
  bm_vx :: real
  bm_vy :: real
  explodeAt :: real
  bm_radius :: real
  bm_ownerId :: string

datatype effect =
    DashFx string real real real real real
  | BeamFx string real real real real real
  | ExplosionFx string real real real real

fun until :: "effect \<Rightarrow> real" where
  "until (DashFx i x1 y1 x2 y2 u) = u"
| "until (BeamFx i x1 y1 x2 y2 u) = u"
| "until (ExplosionFx i x y r u) = u"

text \<open>
  The settings of a join message arrive as JSON and are stored as they come. The code
  applies two operations to \<open>maxPlayers\<close>: \<open>||\<close>, which asks whether the value is truthy,
  and \<open>>=\<close> against a count, which converts it to a number. A value is modelled by these
  two readings: \<open>2\<close> is truthy and converts to 2, \<open>0\<close> is falsy, \<open>-1\<close> and \<open>1.5\<close>
  are truthy numbers, and a string such as \<open>'abc'\<close> is truthy and converts to NaN
  (\<open>None\<close>), with which every comparison is false.
\<close>

datatype jsvalue = JSV (truthy: bool) (to_number: "real option")

definition js_number :: "real \<Rightarrow> jsvalue" where
  "js_number v = JSV (v \<noteq> 0) (Some v)"

definition count_reaches :: "nat \<Rightarrow> jsvalue \<Rightarrow> bool" where
  \<comment> \<open>\<open>count >= value\<close>\<close>
  "count_reaches n v = (case to_number v of None \<Rightarrow> False | Some m \<Rightarrow> m \<le> real n)"

record settings =
  maxPlayers :: jsvalue
  difficulty :: string

record world =
  width :: real
  height :: real

text \<open>
  \<open>room.players\<close> is an object keyed by socket id. Socket ids are not numerals, so its
  keys are iterated in insertion order and it is an association list: \<open>map_of\<close> reads a
  key, \<open>AList.update\<close> writes one (in place when the key exists, at the end otherwise)
  and \<open>AList.delete\<close> removes one.
\<close>

record room =
  r_id :: string
  r_settings :: settings
  players :: "(string \<times> player) list"
  bullets :: "bullet list"
  monsters :: "monster list"
  neutrals :: "neutral list"
  powerups :: "powerup list"
  bombs :: "bomb list"
  effects :: "effect list"
  lastSpawnAt :: real
  lastPowerAt :: real
  lastNeutralAt :: real
  r_world :: world

definition randomInWorld :: "io \<Rightarrow> (real \<times> real) \<times> io" where
  "randomInWorld w =
     (let (a, w1) = random w; (b, w2) = random w1
      in ((a * WORLD_width, b * WORLD_height), w2))"

definition choice :: "'a list \<Rightarrow> io \<Rightarrow> 'a \<times> io" where
  \<comment> \<open>\<open>arr[(Math.random() * arr.length) | 0]\<close>; the draw lies in \<open>[0, 1)\<close>\<close>
  "choice arr w = (let (a, w1) = random w in (arr ! nat \<lfloor>a * real (length arr)\<rfloor>, w1))"

section \<open>Rooms and the population scaler\<close>

text \<open>
  \<open>rooms\<close> is a \<open>Map\<close> from room id to room, iterated in insertion order: an association
  list again. A join message carries \<open>settings\<close>; a field that is falsy takes the
  default (for \<open>difficulty\<close>, a string here, that is the empty string).
\<close>

type_synonym registry = "(string \<times> room) list"

definition createRoom :: "registry \<Rightarrow> string \<Rightarrow> settings \<Rightarrow> room \<times> registry" where
  "createRoom rooms roomId st =
     (let room = \<lparr>r_id = roomId,
            r_settings = \<lparr>maxPlayers = (if truthy (maxPlayers st) then maxPlayers st else js_number 1),
                          difficulty = (if difficulty st = [] then ''Normal'' else difficulty st)\<rparr>,
            players = [], bullets = [], monsters = [], neutrals = [], powerups = [],
            bombs = [], effects = [], lastSpawnAt = 0, lastPowerAt = 0, lastNeutralAt = 0,
            r_world = \<lparr>width = WORLD_width, height = WORLD_height\<rparr>\<rparr>
      in (room, AList.update roomId room rooms))"

definition getOrCreateRoom :: "registry \<Rightarrow> string \<Rightarrow> settings \<Rightarrow> room \<times> registry" where
  "getOrCreateRoom rooms roomId st =
     (case map_of rooms roomId of Some room \<Rightarrow> (room, rooms) | None \<Rightarrow> createRoom rooms roomId st)"

definition countPlayers :: "room \<Rightarrow> nat" where
  "countPlayers room = length (map fst (players room))"

definition scaleForPlayers :: "room \<Rightarrow> nat \<times> real" where
  "scaleForPlayers room =
     (let n = max 1 (countPlayers room); f = 1 + 0.35 * (real n - 1) in (n, f))"

section \<open>Spawner\<close>

definition push_monster :: "monster \<Rightarrow> room \<Rightarrow> room" where
  "push_monster m room = room\<lparr>monsters := monsters room @ [m]\<rparr>"

definition spawnMonster :: "room \<Rightarrow> mtype option \<Rightarrow> io \<Rightarrow> room \<times> io" where
  "spawnMonster room ty w =
     (let (n, f0) = scaleForPlayers room;
          MONSTER_MAX_BASE = 16;
          cap = MONSTER_MAX_BASE + (n - 1) * 10
      in if length (monsters room) \<ge> cap then (room, w)
         else
           let (pos, w1) = randomInWorld w;
               (chosenType, w2) =
                 (case ty of Some t \<Rightarrow> (t, w1)
                  | None \<Rightarrow> choice [Chaser, Dasher, Orbiter, Splitter, Sniper] w1);
               spec = ENEMY_TYPES chosenType;
               (n1, factor) = scaleForPlayers room;
               hp = js_round (real_of_int (spec_baseHp spec) * sqrt factor);
               (i, w3) = uuidv4 w2
           in (push_monster
                 \<lparr>m_id = i, m_type = chosenType, m_x = fst pos, m_y = snd pos, m_vx = 0, m_vy = 0,
                  m_radius = spec_radius spec, m_hp = hp, m_maxHp = hp,
                  m_baseSpeed = spec_baseSpeed spec * (0.75 + 0.25 * factor),
                  m_state = empty_state\<rparr> room, w3))"

definition spawnNeutral :: "room \<Rightarrow> io \<Rightarrow> room \<times> io" where
  "spawnNeutral room w =
     (if length (neutrals room) \<ge> 12 then (room, w)
      else
        let (pos, w1) = randomInWorld w;
            (i, w2) = uuidv4 w1;
            (a, w3) = random w2
        in (room\<lparr>neutrals := neutrals room @
              [\<lparr>n_id = i, n_x = fst pos, n_y = snd pos, n_r = 12, n_hp = 2, n_maxHp = 2,
                n_vx = 0, n_vy = 0, wanderT = a * 3\<rparr>]\<rparr>, w3))"

definition spawnPowerup :: "room \<Rightarrow> io \<Rightarrow> room \<times> io" where
  "spawnPowerup room w =
     (if length (powerups room) \<ge> 8 then (room, w)
      else
        let (pos, w1) = randomInWorld w;
            (ty, w2) = choice [Speed, Firerate, Multishot, Heal, Shield] w1;
            (i, w3) = uuidv4 w2
        in (room\<lparr>powerups := powerups room @
              [\<lparr>u_id = i, u_type = ty, u_x = fst pos, u_y = snd pos, u_r = 12,
                expiresAt = clock w3 + 45000\<rparr>]\<rparr>, w3))"

section \<open>Auto-fire\<close>

definition shot :: "player \<Rightarrow> real \<Rightarrow> int \<Rightarrow> real \<Rightarrow> nat \<Rightarrow> room \<times> io \<Rightarrow> room \<times> io" where
  "shot p now count spread i = (\<lambda>(room, w).
     let t = (if count = 1 then 0 else (real i / (real_of_int count - 1)) * 2 - 1);
         angle = atan2 (dirY p) (dirX p) + spread * t;
         dx = cos angle;
         dy = sin angle;
         (u, w1) = uuidv4 w
     in (room\<lparr>bullets := bullets room @
           [\<lparr>bl_id = u,
             bl_x = p_x p + dx * (PLAYER_RADIUS + BULLET_RADIUS + 1),
             bl_y = p_y p + dy * (PLAYER_RADIUS + BULLET_RADIUS + 1),
             bl_vx = dx * BULLET_SPEED, bl_vy = dy * BULLET_SPEED,
             createdAt = now, bl_ownerId = p_id p, bl_radius = BULLET_RADIUS\<rparr>]\<rparr>, w1))"

definition tryShoot :: "room \<Rightarrow> player \<Rightarrow> real \<Rightarrow> io \<Rightarrow> room \<times> player \<times> io" where
  "tryShoot room p now w =
     (let baseCooldown = 160;
          SHOT_COOLDOWN_MS = baseCooldown / b_firerate (p_buffs p)
      in if \<not> shooting p then (room, p, w)
         else if now - lastShotAt p < SHOT_COOLDOWN_MS then (room, p, w)
         else
           let p1 = p\<lparr>lastShotAt := now\<rparr>;
               count = b_multishot (p_buffs p1);
               spread = min 0.35 (0.08 * (real_of_int count - 1));
               (room1, w1) = upfrom (nat count) (shot p1 now count spread) (room, w)
           in (room1, p1, w1))"

section \<open>Monster AI\<close>

fun nearest_scan ::
  "(string \<times> player) list \<Rightarrow> real \<Rightarrow> real \<Rightarrow> (real \<times> player) option \<Rightarrow> (real \<times> player) option"
where
  "nearest_scan [] fx fy acc = acc"
| "nearest_scan ((k, p) # ps) fx fy acc =
     (let d = dist_xy fx fy (p_x p) (p_y p)
      in nearest_scan ps fx fy
           (case acc of None \<Rightarrow> Some (d, p)
            | Some (best, t) \<Rightarrow> if d < best then Some (d, p) else Some (best, t)))"

definition nearestPlayer :: "room \<Rightarrow> real \<Rightarrow> real \<Rightarrow> player option" where
  "nearestPlayer room fx fy = map_option snd (nearest_scan (players room) fx fy None)"

definition move_by :: "real \<Rightarrow> real \<Rightarrow> monster \<Rightarrow> monster" where
  "move_by ax ay m = m\<lparr>m_x := m_x m + ax, m_y := m_y m + ay\<rparr>"

definition to_player :: "player \<Rightarrow> monster \<Rightarrow> real \<times> real" where
  "to_player p m = normalize_xy (p_x p - m_x m) (p_y p - m_y m)"

definition ai_chaser :: "monster \<Rightarrow> player \<Rightarrow> real \<Rightarrow> monster" where
  "ai_chaser m p dt =
     (let speed = m_baseSpeed m;
          (tx, ty) = to_player p m;
          m1 = m\<lparr>m_vx := lerp (m_vx m) (tx * speed) 0.08, m_vy := lerp (m_vy m) (ty * speed) 0.08\<rparr>
      in move_by (m_vx m1 * dt) (m_vy m1 * dt) m1)"

definition ai_dasher :: "monster \<Rightarrow> player \<Rightarrow> real \<Rightarrow> monster" where
  "ai_dasher m p dt =
     (let speed = m_baseSpeed m;
          st0 = m_state m;
          st1 = (if st_mode st0 = None then st0\<lparr>st_mode := Some Windup, st_timer := 0\<rparr> else st0);
          st2 = st1\<lparr>st_timer := st_timer st1 + dt\<rparr>
      in if st_mode st2 = Some Windup then
           let (tx, ty) = to_player p m;
               (gx, gy) = (- ty, tx);
               m1 = move_by ((tx * 40 + gx * 70) * dt) ((ty * 40 + gy * 70) * dt) m
           in if st_timer st2 > 0.8 then
                let (ex, ey) = to_player p m1
                in m1\<lparr>m_state := st2\<lparr>st_mode := Some Dash, st_timer := 0, st_dx := ex, st_dy := ey\<rparr>\<rparr>
              else m1\<lparr>m_state := st2\<rparr>
         else
           let dashSpeed = speed * 3.2;
               m1 = move_by (st_dx st2 * dashSpeed * dt) (st_dy st2 * dashSpeed * dt) m
           in if st_timer st2 > 0.28 then m1\<lparr>m_state := st2\<lparr>st_mode := Some Windup, st_timer := 0\<rparr>\<rparr>
              else m1\<lparr>m_state := st2\<rparr>)"

definition ai_orbiter :: "monster \<Rightarrow> player \<Rightarrow> real \<Rightarrow> real \<Rightarrow> monster" where
  "ai_orbiter m p dt now =
     (let speed = m_baseSpeed m;
          desired = 160 + 40 * sin (now / 500 + (case st_seed (m_state m) of None \<Rightarrow> 0 | Some sd \<Rightarrow> sd));
          d = dist_xy (m_x m) (m_y m) (p_x p) (p_y p);
          (tx, ty) = to_player p m;
          (gx, gy) = (- ty, tx);
          inward = d - desired
      in move_by ((gx * speed + tx * (- inward * 0.8)) * dt)
                 ((gy * speed + ty * (- inward * 0.8)) * dt) m)"

definition ai_splitter :: "monster \<Rightarrow> player \<Rightarrow> real \<Rightarrow> io \<Rightarrow> monster \<times> io" where
  "ai_splitter m p dt w =
     (let speed = m_baseSpeed m;
          cool0 = (case st_cool (m_state m) of None \<Rightarrow> 0 | Some c \<Rightarrow> c);
          cool1 = cool0 - dt;
          (m1, w1) =
            (if cool1 \<le> 0 then
               let (tx, ty) = to_player p m;
                   (a, wa) = random w;
                   (b, wb) = random wa;
                   (rx, ry) = normalize_xy (a - 0.5) (b - 0.5)
               in (m\<lparr>m_vx := (tx * 0.8 + rx * 0.4) * speed * 2.0,
                     m_vy := (ty * 0.8 + ry * 0.4) * speed * 2.0,
                     m_state := (m_state m)\<lparr>st_cool := Some 0.6\<rparr>\<rparr>, wb)
             else (m\<lparr>m_state := (m_state m)\<lparr>st_cool := Some cool1\<rparr>\<rparr>, w));
          m2 = move_by (m_vx m1 * dt) (m_vy m1 * dt) m1
      in (m2\<lparr>m_vx := m_vx m2 * 0.86, m_vy := m_vy m2 * 0.86\<rparr>, w1))"

definition ai_sniper :: "monster \<Rightarrow> player \<Rightarrow> real \<Rightarrow> monster" where
  "ai_sniper m p dt =
     (let speed = m_baseSpeed m;
          d = dist_xy (m_x m) (m_y m) (p_x p) (p_y p);
          (tx, ty) = to_player p m;
          (gx, gy) = (- ty, tx);
          desired = 420;
          away = desired - d
      in move_by ((gx * speed * 1.1 + tx * (- away * 0.8)) * dt)
                 ((gy * speed * 1.1 + ty * (- away * 0.8)) * dt) m)"

definition ai_mini :: "monster \<Rightarrow> player \<Rightarrow> real \<Rightarrow> monster" where
  "ai_mini m p dt =
     (let speed = m_baseSpeed m; (tx, ty) = to_player p m
      in move_by (tx * speed * dt) (ty * speed * dt) m)"

fun ai_switch :: "mtype \<Rightarrow> monster \<Rightarrow> player \<Rightarrow> real \<Rightarrow> real \<Rightarrow> io \<Rightarrow> monster \<times> io" where
  "ai_switch Chaser m p dt now w = (ai_chaser m p dt, w)"
| "ai_switch Dasher m p dt now w = (ai_dasher m p dt, w)"
| "ai_switch Orbiter m p dt now w = (ai_orbiter m p dt now, w)"
| "ai_switch Splitter m p dt now w = ai_splitter m p dt w"
| "ai_switch Sniper m p dt now w = (ai_sniper m p dt, w)"
| "ai_switch Mini m p dt now w = (ai_mini m p dt, w)"

definition keep_in_bounds :: "world \<Rightarrow> monster \<Rightarrow> monster" where
  "keep_in_bounds wd m =
     (let m1 = m\<lparr>m_x := clamp (m_x m) (m_radius m) (width wd - m_radius m)\<rparr>
      in m1\<lparr>m_y := clamp (m_y m1) (m_radius m1) (height wd - m_radius m1)\<rparr>)"

definition enemy_step :: "real \<Rightarrow> real \<Rightarrow> nat \<Rightarrow> room \<times> io \<Rightarrow> room \<times> io" where
  "enemy_step dt now i = (\<lambda>(room, w).
     let m = monsters room ! i
     in case nearestPlayer room (m_x m) (m_y m) of
          None \<Rightarrow> (room, w)
        | Some p \<Rightarrow>
            let (m1, w1) = ai_switch (m_type m) m p dt now w
            in (room\<lparr>monsters := (monsters room)[i := keep_in_bounds (r_world room) m1]\<rparr>, w1))"

definition updateEnemies :: "room \<Rightarrow> real \<Rightarrow> real \<Rightarrow> io \<Rightarrow> room \<times> io" where
  "updateEnemies room dt now w = downfrom (length (monsters room)) (enemy_step dt now) (room, w)"

section \<open>Powerups and abilities\<close>

text \<open>
  \<open>applyPowerup\<close> changes the player and asks for a timer that takes a buff back; the
  caller, which knows the room and the key of the player, registers the timers.
\<close>

definition applyPowerup :: "player \<Rightarrow> ptype \<Rightarrow> real \<Rightarrow> player \<times> (real \<times> buff) list" where
  "applyPowerup p ty now =
     (let bf = p_buffs p
      in case ty of
           Speed \<Rightarrow> (p\<lparr>p_buffs := bf\<lparr>b_speed := min 1.8 (b_speed bf + 0.3)\<rparr>\<rparr>, [(10000, SpeedBuff)])
         | Firerate \<Rightarrow>
             (p\<lparr>p_buffs := bf\<lparr>b_firerate := min 2.0 (b_firerate bf + 0.4)\<rparr>\<rparr>, [(10000, FirerateBuff)])
         | Multishot \<Rightarrow>
             (p\<lparr>p_buffs := bf\<lparr>b_multishot := min 5 (b_multishot bf + 1)\<rparr>\<rparr>, [(12000, MultishotBuff)])
         | Heal \<Rightarrow> (p\<lparr>kills := kills p + 1\<rparr>, [])
         | Shield \<Rightarrow> (p\<lparr>p_buffs := bf\<lparr>shieldUntil := max (shieldUntil bf) (now + 6000)\<rparr>\<rparr>, []))"

fun buff_expire :: "buff \<Rightarrow> player \<Rightarrow> player" where
  "buff_expire SpeedBuff p = p\<lparr>p_buffs := (p_buffs p)\<lparr>b_speed := max 1 (b_speed (p_buffs p) - 0.3)\<rparr>\<rparr>"
| "buff_expire FirerateBuff p =
     p\<lparr>p_buffs := (p_buffs p)\<lparr>b_firerate := max 1 (b_firerate (p_buffs p) - 0.4)\<rparr>\<rparr>"
| "buff_expire MultishotBuff p =
     p\<lparr>p_buffs := (p_buffs p)\<lparr>b_multishot := max 1 (b_multishot (p_buffs p) - 1)\<rparr>\<rparr>"

definition burst_shot :: "player \<Rightarrow> real \<Rightarrow> nat \<Rightarrow> room \<times> io \<Rightarrow> room \<times> io" where
  "burst_shot p now i = (\<lambda>(room, w).
     let base = atan2 (dirY p) (dirX p);
         num = 9;
         span = pi / 2.4;
         t = (if num = (1::nat) then 0 else (real i / (real num - 1)) * 2 - 1);
         a = base + t * span * 0.5;
         dx = cos a;
         dy = sin a;
         (u, w1) = uuidv4 w
     in (room\<lparr>bullets := bullets room @
           [\<lparr>bl_id = u, bl_x = p_x p + dx * 20, bl_y = p_y p + dy * 20,
             bl_vx = dx * (BULLET_SPEED * 0.9), bl_vy = dy * (BULLET_SPEED * 0.9),
             createdAt = now, bl_ownerId = p_id p, bl_radius = BULLET_RADIUS + 1\<rparr>]\<rparr>, w1))"

text \<open>
  The beam tests each monster against the segment from the player to 800 units ahead. The
  projection divides by the squared length of the segment; for a facing of \<open>(0, 0)\<close> that is
  \<open>0 / 0\<close>, every comparison with the result is false and no monster is hit.
\<close>

definition beam_step ::
  "real \<Rightarrow> real \<Rightarrow> real \<Rightarrow> real \<Rightarrow> nat \<Rightarrow> room \<times> player \<Rightarrow> room \<times> player"
where
  "beam_step x1 y1 x2 y2 i = (\<lambda>(room, p).
     let thickness = 18;
         m = monsters room ! i;
         ABx = x2 - x1;
         ABy = y2 - y1;
         den = ABx * ABx + ABy * ABy
     in if den = 0 then (room, p)
        else
          let t = max 0 (min 1 (((m_x m - x1) * ABx + (m_y m - y1) * ABy) / den));
              Cx = x1 + ABx * t;
              Cy = y1 + ABy * t;
              d = dist_xy (m_x m) (m_y m) Cx Cy
          in if d \<le> m_radius m + thickness then
               let m1 = m\<lparr>m_hp := m_hp m - 2\<rparr>;
                   room1 = room\<lparr>monsters := (monsters room)[i := m1]\<rparr>
               in if m_hp m1 \<le> 0
                  then (room1\<lparr>monsters := splice1 i (monsters room1)\<rparr>, p\<lparr>kills := kills p + 1\<rparr>)
                  else (room1, p)
             else (room, p))"

definition useAbility :: "room \<Rightarrow> player \<Rightarrow> string \<Rightarrow> real \<Rightarrow> io \<Rightarrow> room \<times> player \<times> io" where
  "useAbility room p ty now w =
     (let cd = p_abilityCd p
      in if ty = ''burst'' then
           let COOLDOWN = 3000
           in if now < cd_burst cd then (room, p, w)
              else
                let p1 = p\<lparr>p_abilityCd := cd\<lparr>cd_burst := now + COOLDOWN\<rparr>\<rparr>;
                    (room1, w1) = upfrom 9 (burst_shot p1 now) (room, w)
                in (room1, p1, w1)
         else if ty = ''dash'' then
           let COOLDOWN = 6000
           in if now < cd_dash cd then (room, p, w)
              else
                let p1 = p\<lparr>p_abilityCd := cd\<lparr>cd_dash := now + COOLDOWN\<rparr>\<rparr>;
                    before = (p_x p1, p_y p1);
                    p2 = p1\<lparr>dashingUntil := now + 240\<rparr>;
                    p3 = p2\<lparr>iFramesUntil := now + 360\<rparr>;
                    p4 = p3\<lparr>p_x := p_x p3 + dirX p3 * 60\<rparr>;
                    p5 = p4\<lparr>p_y := p_y p4 + dirY p4 * 60\<rparr>;
                    (u, w1) = uuidv4 w
                in (room\<lparr>effects := effects room @
                      [DashFx u (fst before) (snd before) (p_x p5) (p_y p5) (now + 220)]\<rparr>, p5, w1)
         else if ty = ''grenade'' then
           let COOLDOWN = 5000
           in if now < cd_grenade cd then (room, p, w)
              else
                let p1 = p\<lparr>p_abilityCd := cd\<lparr>cd_grenade := now + COOLDOWN\<rparr>\<rparr>;
                    dx = dirX p1;
                    dy = dirY p1;
                    (u, w1) = uuidv4 w
                in (room\<lparr>bombs := bombs room @
                      [\<lparr>bm_id = u, bm_x = p_x p1 + dx * 20, bm_y = p_y p1 + dy * 20,
                        bm_vx = dx * 260, bm_vy = dy * 260, explodeAt = now + 900,
                        bm_radius = 120, bm_ownerId = p_id p1\<rparr>]\<rparr>, p1, w1)
         else if ty = ''beam'' then
           let COOLDOWN = 8000
           in if now < cd_beam cd then (room, p, w)
              else
                let p1 = p\<lparr>p_abilityCd := cd\<lparr>cd_beam := now + COOLDOWN\<rparr>\<rparr>;
                    x1 = p_x p1;
                    y1 = p_y p1;
                    x2 = p_x p1 + dirX p1 * 800;
                    y2 = p_y p1 + dirY p1 * 800;
                    (room1, p2) = downfrom (length (monsters room)) (beam_step x1 y1 x2 y2) (room, p1);
                    (u, w1) = uuidv4 w
                in (room1\<lparr>effects := effects room1 @ [BeamFx u x1 y1 x2 y2 (now + 150)]\<rparr>, p2, w1)
         else (room, p, w))"

section \<open>The tick: \<open>updateRoom\<close>\<close>

definition for_in :: "(string \<times> 'v) list \<Rightarrow> (string \<Rightarrow> 's \<Rightarrow> 's) \<Rightarrow> 's \<Rightarrow> 's" where
  \<comment> \<open>\<open>for (const id in obj) body(id)\<close>\<close>
  "for_in obj body s = fold body (map fst obj) s"

subsection \<open>Gated spawns\<close>

definition run_spawns :: "room \<Rightarrow> real \<Rightarrow> io \<Rightarrow> room \<times> io" where
  "run_spawns room now w =
     (let (n, factor) = scaleForPlayers room;
          MONSTER_SPAWN_INTERVAL_MS_BASE = 2400;
          spawnInterval = MONSTER_SPAWN_INTERVAL_MS_BASE / factor;
          (room1, w1) =
            (if now - lastSpawnAt room > spawnInterval
             then spawnMonster (room\<lparr>lastSpawnAt := now\<rparr>) None w else (room, w));
          (room2, w2) =
            (if now - lastPowerAt room1 > 6000
             then spawnPowerup (room1\<lparr>lastPowerAt := now\<rparr>) w1 else (room1, w1))
      in if now - lastNeutralAt room2 > 7000
         then spawnNeutral (room2\<lparr>lastNeutralAt := now\<rparr>) w2 else (room2, w2))"

subsection \<open>Player movement and auto-fire\<close>

definition integrate_player :: "world \<Rightarrow> real \<Rightarrow> real \<Rightarrow> player \<Rightarrow> player" where
  "integrate_player wd dt now p =
     (let inputX = (if p_right p then 1 else 0) - (if p_left p then 1 else 0);
          inputY = (if p_down p then 1 else 0) - (if p_up p then 1 else 0);
          (dx, dy) = normalize_xy inputX inputY;
          dashBoost = (if now < dashingUntil p then 3.2 else 1);
          speed = PLAYER_SPEED * b_speed (p_buffs p) * dashBoost;
          p1 = p\<lparr>p_x := p_x p + dx * speed * dt\<rparr>;
          p2 = p1\<lparr>p_y := p_y p1 + dy * speed * dt\<rparr>;
          p3 = p2\<lparr>p_x := clamp (p_x p2) (p_radius p2) (width wd - p_radius p2)\<rparr>
      in p3\<lparr>p_y := clamp (p_y p3) (p_radius p3) (height wd - p_radius p3)\<rparr>)"

definition move_player :: "real \<Rightarrow> real \<Rightarrow> string \<Rightarrow> room \<times> io \<Rightarrow> room \<times> io" where
  "move_player dt now k = (\<lambda>(room, w).
     case map_of (players room) k of
       None \<Rightarrow> (room, w)
     | Some p \<Rightarrow>
         let (room1, p1, w1) = tryShoot room (integrate_player (r_world room) dt now p) now w
         in (room1\<lparr>players := AList.update k p1 (players room1)\<rparr>, w1))"

subsection \<open>Bombs and effects\<close>

definition blast_step :: "bomb \<Rightarrow> nat \<Rightarrow> room \<Rightarrow> room" where
  "blast_step b j room =
     (let m = monsters room ! j
      in if dist_xy (bm_x b) (bm_y b) (m_x m) (m_y m) \<le> bm_radius b + m_radius m then
           let m1 = m\<lparr>m_hp := m_hp m - 3\<rparr>;
               room1 = room\<lparr>monsters := (monsters room)[j := m1]\<rparr>
           in if m_hp m1 \<le> 0 then room1\<lparr>monsters := splice1 j (monsters room1)\<rparr> else room1
         else room)"

definition drift :: "real \<Rightarrow> bomb \<Rightarrow> bomb" where
  "drift dt b =
     (let b1 = b\<lparr>bm_x := bm_x b + bm_vx b * dt\<rparr>;
          b2 = b1\<lparr>bm_y := bm_y b1 + bm_vy b1 * dt\<rparr>;
          b3 = b2\<lparr>bm_vx := bm_vx b2 * 0.98\<rparr>
      in b3\<lparr>bm_vy := bm_vy b3 * 0.98\<rparr>)"

definition bomb_step :: "real \<Rightarrow> real \<Rightarrow> nat \<Rightarrow> room \<times> io \<Rightarrow> room \<times> io" where
  "bomb_step dt now i = (\<lambda>(room, w).
     let b = drift dt (bombs room ! i);
         room1 = room\<lparr>bombs := (bombs room)[i := b]\<rparr>
     in if now \<ge> explodeAt b then
          let room2 = downfrom (length (monsters room1)) (blast_step b) room1;
              (u, w1) = uuidv4 w;
              room3 = room2\<lparr>effects := effects room2 @
                        [ExplosionFx u (bm_x b) (bm_y b) (bm_radius b) (now + 220)]\<rparr>
          in (room3\<lparr>bombs := splice1 i (bombs room3)\<rparr>, w1)
        else (room1, w))"

definition prune_effect :: "real \<Rightarrow> nat \<Rightarrow> room \<Rightarrow> room" where
  "prune_effect now i room =
     (if until (effects room ! i) \<le> now then room\<lparr>effects := splice1 i (effects room)\<rparr> else room)"

subsection \<open>Bullets\<close>

definition advance :: "real \<Rightarrow> bullet \<Rightarrow> bullet" where
  "advance dt b0 =
     (let b1 = b0\<lparr>bl_x := bl_x b0 + bl_vx b0 * dt\<rparr>
      in b1\<lparr>bl_y := bl_y b1 + bl_vy b1 * dt\<rparr>)"

definition culled :: "real \<Rightarrow> world \<Rightarrow> bullet \<Rightarrow> bool" where
  "culled now wd b =
     (let expired = (now - createdAt b > BULLET_LIFETIME_MS);
          outOfBounds = (bl_x b < - 50 \<or> bl_y b < - 50 \<or> bl_x b > width wd + 50
                           \<or> bl_y b > height wd + 50)
      in expired \<or> outOfBounds)"

definition cull_step :: "real \<Rightarrow> real \<Rightarrow> nat \<Rightarrow> room \<Rightarrow> room" where
  "cull_step dt now i room =
     (let b = advance dt (bullets room ! i);
          room1 = room\<lparr>bullets := (bullets room)[i := b]\<rparr>
      in if culled now (r_world room1) b then room1\<lparr>bullets := splice1 i (bullets room1)\<rparr>
         else room1)"

definition spawn_mini :: "monster \<Rightarrow> nat \<Rightarrow> room \<times> io \<Rightarrow> room \<times> io" where
  "spawn_mini m k = (\<lambda>(room, w).
     let mini = ENEMY_TYPES Mini;
         hp = spec_baseHp mini;
         (u, w1) = uuidv4 w;
         (a, w2) = random w1;
         (b, w3) = random w2
     in (push_monster
           \<lparr>m_id = u, m_type = Mini, m_x = m_x m + (a - 0.5) * 20, m_y = m_y m + (b - 0.5) * 20,
            m_vx = 0, m_vy = 0, m_radius = spec_radius mini, m_hp = hp, m_maxHp = hp,
            m_baseSpeed = spec_baseSpeed mini, m_state = empty_state\<rparr> room, w3))"

definition credit_owner :: "string \<Rightarrow> room \<Rightarrow> room" where
  "credit_owner ownerId room =
     (case map_of (players room) ownerId of
        None \<Rightarrow> room
      | Some owner \<Rightarrow>
          room\<lparr>players := AList.update ownerId (owner\<lparr>kills := kills owner + 1\<rparr>) (players room)\<rparr>)"

definition hit_monster :: "bullet \<Rightarrow> nat \<Rightarrow> room \<times> io \<Rightarrow> room \<times> io" where
  "hit_monster b j = (\<lambda>(room, w).
     let m = (monsters room ! j)\<lparr>m_hp := m_hp (monsters room ! j) - 1\<rparr>;
         room1 = room\<lparr>monsters := (monsters room)[j := m]\<rparr>
     in if m_hp m \<le> 0 then
          let room2 = credit_owner (bl_ownerId b) room1;
              (room3, w3) =
                (if m_type m = Splitter then upfrom 2 (spawn_mini m) (room2, w) else (room2, w))
          in (room3\<lparr>monsters := splice1 j (monsters room3)\<rparr>, w3)
        else (room1, w))"

definition hits_monster :: "bullet \<Rightarrow> monster \<Rightarrow> bool" where
  "hits_monster b m = circleCollide (bl_x b) (bl_y b) (bl_radius b) (m_x m) (m_y m) (m_radius m)"

primrec monster_scan :: "nat \<Rightarrow> bullet \<Rightarrow> room \<times> io \<Rightarrow> (room \<times> io) \<times> bool" where
  \<comment> \<open>the inner loop: from the last monster down, stop at the first one hit\<close>
  "monster_scan 0 b s = (s, False)"
| "monster_scan (Suc j) b s =
     (if hits_monster b (monsters (fst s) ! j) then (hit_monster b j s, True)
      else monster_scan j b s)"

definition bullet_monster_step :: "nat \<Rightarrow> room \<times> io \<Rightarrow> room \<times> io" where
  "bullet_monster_step i = (\<lambda>(room, w).
     let b = bullets room ! i;
         ((room1, w1), hit) = monster_scan (length (monsters room)) b (room, w)
     in if hit then (room1\<lparr>bullets := splice1 i (bullets room1)\<rparr>, w1) else (room1, w1))"

subsection \<open>Powerups\<close>

definition powerup_step :: "string \<Rightarrow> real \<Rightarrow> nat \<Rightarrow> room \<times> io \<Rightarrow> room \<times> io" where
  "powerup_step k now i = (\<lambda>(room, w).
     case map_of (players room) k of
       None \<Rightarrow> (room, w)
     | Some p \<Rightarrow>
         let u = powerups room ! i
         in if expiresAt u \<le> now then (room\<lparr>powerups := splice1 i (powerups room)\<rparr>, w)
            else if circleCollide (p_x p) (p_y p) (p_radius p) (u_x u) (u_y u) (u_r u) then
              let (p1, ts) = applyPowerup p (u_type u) now;
                  w1 = fold (\<lambda>(delay, bf). setTimeout (BuffExpire (r_id room) k (p_obj p) bf) delay) ts w
              in (room\<lparr>players := AList.update k p1 (players room),
                       powerups := splice1 i (powerups room)\<rparr>, w1)
            else (room, w))"

definition pickup_powerups :: "real \<Rightarrow> string \<Rightarrow> room \<times> io \<Rightarrow> room \<times> io" where
  "pickup_powerups now k = (\<lambda>(room, w).
     downfrom (length (powerups room)) (powerup_step k now) (room, w))"

subsection \<open>Neutrals\<close>

definition wander :: "world \<Rightarrow> real \<Rightarrow> neutral \<Rightarrow> io \<Rightarrow> neutral \<times> io" where
  "wander wd dt n0 w =
     (let n1 = n0\<lparr>wanderT := wanderT n0 - dt\<rparr>;
          (n2, w2) =
            (if wanderT n1 \<le> 0 then
               let (a, wa) = random w;
                   (b, wb) = random wa;
                   (c, wc) = random wb;
                   (dx, dy) = normalize_xy (b - 0.5) (c - 0.5)
               in (n1\<lparr>wanderT := 1 + a * 2.5, n_vx := dx * 80, n_vy := dy * 80\<rparr>, wc)
             else (n1, w));
          n3 = n2\<lparr>n_x := n_x n2 + n_vx n2 * dt, n_y := n_y n2 + n_vy n2 * dt\<rparr>;
          n4 = n3\<lparr>n_vx := n_vx n3 * 0.98, n_vy := n_vy n3 * 0.98\<rparr>;
          n5 = n4\<lparr>n_x := clamp (n_x n4) (n_r n4) (width wd - n_r n4)\<rparr>
      in (n5\<lparr>n_y := clamp (n_y n5) (n_r n5) (height wd - n_r n5)\<rparr>, w2))"

definition neutral_step :: "real \<Rightarrow> nat \<Rightarrow> room \<times> io \<Rightarrow> room \<times> io" where
  "neutral_step dt i = (\<lambda>(room, w).
     let (n, w1) = wander (r_world room) dt (neutrals room ! i) w
     in (room\<lparr>neutrals := (neutrals room)[i := n]\<rparr>, w1))"

definition hits_neutral :: "bullet \<Rightarrow> neutral \<Rightarrow> bool" where
  "hits_neutral b n = circleCollide (bl_x b) (bl_y b) (bl_radius b) (n_x n) (n_y n) (n_r n)"

definition hit_neutral :: "nat \<Rightarrow> nat \<Rightarrow> room \<Rightarrow> room" where
  "hit_neutral i j room =
     (let n = neutrals room ! j;
          n1 = n\<lparr>n_hp := n_hp n - 1\<rparr>;
          room1 = room\<lparr>neutrals := (neutrals room)[j := n1], bullets := splice1 i (bullets room)\<rparr>
      in if n_hp n1 \<le> 0 then room1\<lparr>neutrals := splice1 j (neutrals room1)\<rparr> else room1)"

primrec neutral_scan :: "nat \<Rightarrow> bullet \<Rightarrow> nat \<Rightarrow> room \<Rightarrow> room" where
  "neutral_scan 0 b i room = room"
| "neutral_scan (Suc j) b i room =
     (if hits_neutral b (neutrals room ! j) then hit_neutral i j room
      else neutral_scan j b i room)"

definition bullet_neutral_step :: "nat \<Rightarrow> room \<Rightarrow> room" where
  "bullet_neutral_step i room = neutral_scan (length (neutrals room)) (bullets room ! i) i room"

subsection \<open>Contact between monsters and players\<close>

fun collided_with :: "player \<Rightarrow> monster list \<Rightarrow> bool" where
  \<comment> \<open>the search loop: \<open>collided\<close> becomes true at the first monster that overlaps\<close>
  "collided_with p [] = False"
| "collided_with p (m # ms) =
     (if circleCollide (p_x p) (p_y p) (p_radius p) (m_x m) (m_y m) (m_radius m) then True
      else collided_with p ms)"

definition contact_step :: "real \<Rightarrow> string \<Rightarrow> room \<times> io \<Rightarrow> room \<times> io" where
  "contact_step now k = (\<lambda>(room, w).
     case map_of (players room) k of
       None \<Rightarrow> (room, w)
     | Some p \<Rightarrow>
         let collided = collided_with p (monsters room)
         in if collided \<and> now > iFramesUntil p \<and> now > shieldUntil (p_buffs p) then
              let (pos, w1) = randomInWorld w;
                  p1 = p\<lparr>p_x := fst pos, p_y := snd pos\<rparr>;
                  p2 = p1\<lparr>kills := max 0 (kills p1 - 1)\<rparr>;
                  p3 = p2\<lparr>iFramesUntil := now + 1000\<rparr>
              in (room\<lparr>players := AList.update k p3 (players room)\<rparr>, w1)
            else (room, w))"

subsection \<open>The whole tick\<close>

definition move_players :: "real \<Rightarrow> real \<Rightarrow> room \<times> io \<Rightarrow> room \<times> io" where
  "move_players dt now = (\<lambda>(room, w). for_in (players room) (move_player dt now) (room, w))"

definition update_bombs :: "real \<Rightarrow> real \<Rightarrow> room \<times> io \<Rightarrow> room \<times> io" where
  "update_bombs dt now = (\<lambda>(room, w). downfrom (length (bombs room)) (bomb_step dt now) (room, w))"

definition prune_effects :: "real \<Rightarrow> room \<Rightarrow> room" where
  "prune_effects now room = downfrom (length (effects room)) (prune_effect now) room"

definition cull_bullets :: "real \<Rightarrow> real \<Rightarrow> room \<Rightarrow> room" where
  "cull_bullets dt now room = downfrom (length (bullets room)) (cull_step dt now) room"

definition bullets_vs_monsters :: "room \<times> io \<Rightarrow> room \<times> io" where
  "bullets_vs_monsters = (\<lambda>(room, w). downfrom (length (bullets room)) bullet_monster_step (room, w))"

definition players_vs_powerups :: "real \<Rightarrow> room \<times> io \<Rightarrow> room \<times> io" where
  "players_vs_powerups now = (\<lambda>(room, w). for_in (players room) (pickup_powerups now) (room, w))"

definition move_neutrals :: "real \<Rightarrow> room \<times> io \<Rightarrow> room \<times> io" where
  "move_neutrals dt = (\<lambda>(room, w). upfrom (length (neutrals room)) (neutral_step dt) (room, w))"

definition bullets_vs_neutrals :: "room \<Rightarrow> room" where
  "bullets_vs_neutrals room = downfrom (length (bullets room)) bullet_neutral_step room"

definition monsters_vs_players :: "real \<Rightarrow> room \<times> io \<Rightarrow> room \<times> io" where
  "monsters_vs_players now = (\<lambda>(room, w). for_in (players room) (contact_step now) (room, w))"

definition updateRoom :: "room \<Rightarrow> real \<Rightarrow> real \<Rightarrow> io \<Rightarrow> room \<times> io" where
  "updateRoom room dt now w =
     (let s1 = run_spawns room now w;
          s2 = move_players dt now s1;
          s3 = (case s2 of (r, v) \<Rightarrow> updateEnemies r dt now v);
          s4 = update_bombs dt now s3;
          s5 = apfst (prune_effects now) s4;
          s6 = apfst (cull_bullets dt now) s5;
          s7 = bullets_vs_monsters s6;
          s8 = players_vs_powerups now s7;
          s9 = move_neutrals dt s8;
          s10 = apfst bullets_vs_neutrals s9
      in monsters_vs_players now s10)"

section \<open>Room manager: the socket handlers, the tick and the timers\<close>

text \<open>
  The server's state is the room registry, the \<open>roomId\<close> each socket carries in its
  \<open>data\<close>, the time of the last tick, the outside world and the number of player
  objects made so far. A handler runs to completion
  before the next one starts; each is a function on this state.
\<close>

record join_msg =
  jm_roomId :: string
  jm_settings :: "settings option"

record input_msg =
  in_up :: bool
  in_down :: bool
  in_left :: bool
  in_right :: bool
  in_shooting :: bool
  in_angle :: "real option"

datatype reply = JoinDenied string | Init string world string settings

record server =
  rooms :: registry
  sockdata :: "string \<Rightarrow> string option"
  last_tick :: real
  env :: io
  objects :: nat

definition new_player :: "nat \<Rightarrow> string \<Rightarrow> real \<times> real \<Rightarrow> real \<Rightarrow> player" where
  "new_player obj sid spawn c =
     \<lparr>p_obj = obj, p_id = sid, p_x = fst spawn, p_y = snd spawn, dirX = 1, dirY = 0,
      p_up = False, p_down = False, p_left = False, p_right = False, shooting = False,
      lastShotAt = 0, color = \<lfloor>c * 360\<rfloor>, kills = 0, p_radius = PLAYER_RADIUS,
      p_buffs = \<lparr>b_speed = 1, b_firerate = 1, b_multishot = 1, shieldUntil = 0\<rparr>,
      p_abilityCd = \<lparr>cd_burst = 0, cd_dash = 0, cd_grenade = 0, cd_beam = 0\<rparr>,
      dashingUntil = 0, iFramesUntil = 0\<rparr>"

definition join_roomId :: "join_msg \<Rightarrow> string" where
  \<comment> \<open>\<open>String(data?.roomId || 'default')\<close>\<close>
  "join_roomId msg = (if jm_roomId msg = [] then ''default'' else jm_roomId msg)"

definition join_settings :: "join_msg \<Rightarrow> settings" where
  \<comment> \<open>\<open>data?.settings || { maxPlayers: 1, difficulty: 'Normal' }\<close>\<close>
  "join_settings msg =
     (case jm_settings msg of
        None \<Rightarrow> \<lparr>maxPlayers = js_number 1, difficulty = ''Normal''\<rparr>
      | Some x \<Rightarrow> x)"

definition on_join :: "string \<Rightarrow> join_msg \<Rightarrow> server \<Rightarrow> server \<times> reply" where
  "on_join sid msg s =
     (let roomId = join_roomId msg;
          st = join_settings msg;
          (room, rooms1) = getOrCreateRoom (rooms s) roomId st
      in if count_reaches (countPlayers room) (maxPlayers (r_settings room))
         then (s\<lparr>rooms := rooms1\<rparr>, JoinDenied ''Room full'')
         else
           let (spawn, w1) = randomInWorld (env s);
               (c, w2) = random w1;
               room1 = room\<lparr>players :=
                         AList.update sid (new_player (objects s) sid spawn c) (players room)\<rparr>
           in (s\<lparr>rooms := AList.update roomId room1 rooms1,
                  sockdata := (sockdata s)(sid \<mapsto> roomId), env := w2,
                  objects := Suc (objects s)\<rparr>,
               Init sid (r_world room1) roomId (r_settings room1)))"

definition socket_room :: "server \<Rightarrow> string \<Rightarrow> (string \<times> room) option" where
  \<comment> \<open>\<open>rooms.get(socket.data.roomId)\<close>, with the key it was found under\<close>
  "socket_room s sid =
     (case sockdata s sid of
        None \<Rightarrow> None
      | Some rid \<Rightarrow> (case map_of (rooms s) rid of None \<Rightarrow> None | Some room \<Rightarrow> Some (rid, room)))"

definition put_room :: "string \<Rightarrow> room \<Rightarrow> server \<Rightarrow> server" where
  \<comment> \<open>the room object found under \<open>rid\<close> has been changed in place\<close>
  "put_room rid room s = s\<lparr>rooms := AList.update rid room (rooms s)\<rparr>"

definition apply_input :: "input_msg \<Rightarrow> player \<Rightarrow> player" where
  "apply_input d p =
     (let p1 = p\<lparr>p_up := in_up d, p_down := in_down d, p_left := in_left d, p_right := in_right d,
               shooting := in_shooting d\<rparr>
      in case in_angle d of None \<Rightarrow> p1 | Some a \<Rightarrow> p1\<lparr>dirX := cos a, dirY := sin a\<rparr>)"

definition on_input :: "string \<Rightarrow> input_msg \<Rightarrow> server \<Rightarrow> server" where
  "on_input sid d s =
     (case socket_room s sid of
        None \<Rightarrow> s
      | Some (rid, room) \<Rightarrow>
          (case map_of (players room) sid of
             None \<Rightarrow> s
           | Some p \<Rightarrow>
               put_room rid (room\<lparr>players := AList.update sid (apply_input d p) (players room)\<rparr>) s))"

definition on_ability :: "string \<Rightarrow> string \<Rightarrow> server \<Rightarrow> server" where
  "on_ability sid ty s =
     (case socket_room s sid of
        None \<Rightarrow> s
      | Some (rid, room) \<Rightarrow>
          (case map_of (players room) sid of
             None \<Rightarrow> s
           | Some p \<Rightarrow>
               let (room1, p1, w1) = useAbility room p ty (clock (env s)) (env s)
               in put_room rid (room1\<lparr>players := AList.update sid p1 (players room1)\<rparr>)
                    (s\<lparr>env := w1\<rparr>)))"

definition on_disconnect :: "string \<Rightarrow> server \<Rightarrow> server" where
  "on_disconnect sid s =
     (case socket_room s sid of
        None \<Rightarrow> s
      | Some (rid, room) \<Rightarrow>
          (put_room rid (room\<lparr>players := AList.delete sid (players room)\<rparr>) s)
            \<lparr>env := setTimeout (RoomGc sid) 10000 (env s)\<rparr>)"

text \<open>
  The callbacks. The room collector reads the socket's room and the registry when it
  fires. A buff timer changes the player object it was created for: the model finds the
  player by room and key and changes the record only when it is that object still; a
  player who has left, or whose record a later join has replaced, is not touched.
\<close>

fun run_callback :: "callback \<Rightarrow> server \<Rightarrow> server" where
  "run_callback (RoomGc sid) s =
     (case socket_room s sid of
        None \<Rightarrow> s
      | Some (rid, r) \<Rightarrow>
          if countPlayers r = 0 then s\<lparr>rooms := AList.delete (r_id r) (rooms s)\<rparr> else s)"
| "run_callback (BuffExpire rid k obj bf) s =
     (case map_of (rooms s) rid of
        None \<Rightarrow> s
      | Some room \<Rightarrow>
          (case map_of (players room) k of
             None \<Rightarrow> s
           | Some p \<Rightarrow>
               if p_obj p = obj
               then put_room rid (room\<lparr>players := AList.update k (buff_expire bf p) (players room)\<rparr>) s
               else s))"

definition fire :: "nat \<Rightarrow> server \<Rightarrow> server" where
  \<comment> \<open>the \<open>n\<close>-th pending timer runs, once the clock has reached its time\<close>
  "fire n s =
     (let pending = sched (env s)
      in if n < length pending \<and> fst (pending ! n) \<le> clock (env s)
         then run_callback (snd (pending ! n)) (s\<lparr>env := (env s)\<lparr>sched := splice1 n pending\<rparr>\<rparr>)
         else s)"

definition tick_room :: "real \<Rightarrow> real \<Rightarrow> string \<Rightarrow> server \<Rightarrow> server" where
  "tick_room dt now k s =
     (case map_of (rooms s) k of
        None \<Rightarrow> s
      | Some room \<Rightarrow>
          let (room1, w1) = updateRoom room dt now (env s)
          in s\<lparr>rooms := AList.update k room1 (rooms s), env := w1\<rparr>)"

definition on_tick :: "server \<Rightarrow> server" where
  "on_tick s =
     (let now = clock (env s);
          dt = (now - last_tick s) / 1000;
          s1 = s\<lparr>last_tick := now\<rparr>
      in for_in (rooms s1) (tick_room dt now) s1)"

datatype event =
    Join string join_msg
  | Input string input_msg
  | Ability string string
  | Disconnect string
  | Tick
  | Fire nat

fun handle :: "event \<Rightarrow> server \<Rightarrow> server" where
  "handle (Join sid msg) s = fst (on_join sid msg s)"
| "handle (Input sid d) s = on_input sid d s"
| "handle (Ability sid ty) s = on_ability sid ty s"
| "handle (Disconnect sid) s = on_disconnect sid s"
| "handle Tick s = on_tick s"
| "handle (Fire n) s = fire n s"

definition step :: "real \<times> event \<Rightarrow> server \<Rightarrow> server" where
  \<comment> \<open>an event, with the reading of \<open>Date.now()\<close> while its handler runs\<close>
  "step = (\<lambda>(t, e) s. handle e (s\<lparr>env := (env s)\<lparr>clock := t\<rparr>\<rparr>))"

definition run :: "(real \<times> event) list \<Rightarrow> server \<Rightarrow> server" where
  "run evs s = fold step evs s"

definition start :: "(nat \<Rightarrow> real) \<Rightarrow> (nat \<Rightarrow> string) \<Rightarrow> real \<Rightarrow> server" where
  "start r u t0 =
     \<lparr>rooms = [], sockdata = (\<lambda>sid. None), last_tick = t0,
      env = \<lparr>rnd = r, rnd_used = 0, uuid = u, uuid_used = 0, clock = t0, sched = []\<rparr>,
      objects = 0\<rparr>"

section \<open>Vocabulary of the statements\<close>

text \<open>
  The gate of an ability is the field of \<open>abilityCd\<close> it compares \<open>now\<close> with, and its
  cooldown is the constant it adds; the four branches of \<open>useAbility\<close> are collected here so
  that one statement covers them.
\<close>

definition ready_at :: "string \<Rightarrow> player \<Rightarrow> real" where
  "ready_at ty p =
     (if ty = ''burst'' then cd_burst (p_abilityCd p)
      else if ty = ''dash'' then cd_dash (p_abilityCd p)
      else if ty = ''grenade'' then cd_grenade (p_abilityCd p)
      else cd_beam (p_abilityCd p))"

definition cooldown_ms :: "string \<Rightarrow> real" where
  "cooldown_ms ty =
     (if ty = ''burst'' then 3000 else if ty = ''dash'' then 6000
      else if ty = ''grenade'' then 5000 else 8000)"

text \<open>
  What a tick never touches in a room: the keys of its players, its settings, its id and
  its world. A whole number is a real that is a natural number. A registry entry is in
  order when the room carries the key it is stored under and, if its \<open>maxPlayers\<close> is a
  whole number, holds no more players than that.
\<close>

definition frame :: "room \<Rightarrow> string list \<times> settings \<times> string \<times> world" where
  "frame r = (map fst (players r), r_settings r, r_id r, r_world r)"

definition whole_number :: "real \<Rightarrow> bool" where
  "whole_number v = (0 \<le> v \<and> real_of_int \<lfloor>v\<rfloor> = v)"

definition within_capacity :: "room \<Rightarrow> bool" where
  "within_capacity room =
     (case to_number (maxPlayers (r_settings room)) of
        None \<Rightarrow> True
      | Some m \<Rightarrow> if whole_number m then real (countPlayers room) \<le> m else True)"

definition room_ok :: "string \<times> room \<Rightarrow> bool" where
  "room_ok = (\<lambda>(rid, room). r_id room = rid \<and> within_capacity room)"

definition registry_ok :: "server \<Rightarrow> bool" where
  "registry_ok s = list_all room_ok (rooms s)"



text \<open>
  The monster a split produces, written out with the numbers of \<open>ENEMY_TYPES.mini\<close>: it
  sits at an offset of at most 10 units from the splitter, decided by two random draws.
\<close>

definition mini_of :: "monster \<Rightarrow> string \<Rightarrow> real \<Rightarrow> real \<Rightarrow> monster" where
  "mini_of m u a b =
     \<lparr>m_id = u, m_type = Mini, m_x = m_x m + (a - 0.5) * 20, m_y = m_y m + (b - 0.5) * 20,
      m_vx = 0, m_vy = 0, m_radius = 10, m_hp = 1, m_maxHp = 1, m_baseSpeed = 170,
      m_state = empty_state\<rparr>"

text \<open>A point is inside the world when it keeps the distance \<open>r\<close> from every edge.\<close>

definition inside :: "world \<Rightarrow> real \<Rightarrow> real \<Rightarrow> real \<Rightarrow> bool" where
  "inside wd r x y = (r \<le> x \<and> x \<le> width wd - r \<and> r \<le> y \<and> y \<le> height wd - r)"

subsection \<open>Sample inputs\<close>

definition sample_io :: io where
  "sample_io = \<lparr>rnd = (\<lambda>n. 1 / 2), rnd_used = 0, uuid = (\<lambda>n. replicate (Suc n) CHR ''u''),
     uuid_used = 0, clock = 0, sched = []\<rparr>"

definition alice :: player where
  "alice = new_player 0 ''alice'' (100, 100) 0"

definition arena :: room where
  "arena = (fst (createRoom [] ''arena'' \<lparr>maxPlayers = js_number 2, difficulty = ''Hard''\<rparr>))
     \<lparr>players := [(''alice'', alice)]\<rparr>"

definition solo_msg :: join_msg where
  "solo_msg = \<lparr>jm_roomId = ''lobby'', jm_settings = Some \<lparr>maxPlayers = js_number 1, difficulty = ''Easy''\<rparr>\<rparr>"

definition boot :: server where
  "boot = start (\<lambda>n. 1 / 2) (\<lambda>n. replicate (Suc n) CHR ''u'') 0"

definition lobby1 :: server where
  "lobby1 = run [(0, Join ''a'' solo_msg)] boot"

definition lobby_room :: room where
  "lobby_room = (fst (createRoom [] ''lobby'' \<lparr>maxPlayers = js_number 1, difficulty = ''Easy''\<rparr>))
     \<lparr>players := [(''a'', new_player 0 ''a'' (1200, 900) (1 / 2))]\<rparr>"

definition monster_at :: "mtype \<Rightarrow> real \<Rightarrow> real \<Rightarrow> monster" where
  "monster_at ty x y =
     \<lparr>m_id = ''m'', m_type = ty, m_x = x, m_y = y, m_vx = 0, m_vy = 0,
      m_radius = spec_radius (ENEMY_TYPES ty), m_hp = spec_baseHp (ENEMY_TYPES ty),
      m_maxHp = spec_baseHp (ENEMY_TYPES ty), m_baseSpeed = spec_baseSpeed (ENEMY_TYPES ty),
      m_state = empty_state\<rparr>"

definition guarded :: player where
  "guarded = alice\<lparr>p_buffs := (p_buffs alice)\<lparr>shieldUntil := 5000\<rparr>\<rparr>"

definition contact_room :: room where
  "contact_room = arena\<lparr>players := [(''alice'', guarded)], monsters := [monster_at Chaser 100 100]\<rparr>"

definition duo_msg :: join_msg where
  "duo_msg = \<lparr>jm_roomId = ''den'', jm_settings = Some \<lparr>maxPlayers = js_number 2, difficulty = ''Easy''\<rparr>\<rparr>"

definition greedy_msg :: join_msg where
  "greedy_msg = \<lparr>jm_roomId = ''den'', jm_settings = Some \<lparr>maxPlayers = js_number 4, difficulty = ''Insane''\<rparr>\<rparr>"

definition den1 :: server where
  "den1 = run [(0, Join ''a'' duo_msg)] boot"

definition den_room :: room where
  "den_room = (fst (createRoom [] ''den'' \<lparr>maxPlayers = js_number 2, difficulty = ''Easy''\<rparr>))
     \<lparr>players := [(''a'', new_player 0 ''a'' (1200, 900) (1 / 2))]\<rparr>"

definition den_left :: server where
  "den_left = run [(0, Join ''a'' duo_msg), (1000, Disconnect ''a'')] boot"

definition den_back :: server where
  "den_back = run [(0, Join ''a'' duo_msg), (1000, Disconnect ''a''), (5000, Join ''b'' duo_msg)] boot"

definition live_bomb :: bomb where
  "live_bomb = \<lparr>bm_id = ''g'', bm_x = 100, bm_y = 100, bm_vx = 0, bm_vy = 0, explodeAt = 900,
     bm_radius = 120, bm_ownerId = ''alice''\<rparr>"


definition slug :: bullet where
  "slug = \<lparr>bl_id = ''s'', bl_x = 100, bl_y = 100, bl_vx = 0, bl_vy = 0, createdAt = 0,
     bl_ownerId = ''alice'', bl_radius = 4\<rparr>"


definition vacant :: room where
  "vacant = arena\<lparr>players := [], monsters := [monster_at Splitter 100 100], bombs := [live_bomb]\<rparr>"

definition beam_room :: room where
  "beam_room = arena\<lparr>monsters := [monster_at Splitter 200 100]\<rparr>"

definition edge :: player where
  "edge = alice\<lparr>p_x := 2380\<rparr>"

definition worn_splitter :: monster where
  "worn_splitter = (monster_at Splitter 100 100)\<lparr>m_hp := 1\<rparr>"

definition split_room :: room where
  "split_room = arena\<lparr>bullets := [slug], monsters := [worn_splitter]\<rparr>"

definition half_msg :: join_msg where
  "half_msg = \<lparr>jm_roomId = ''loft'',
     jm_settings = Some \<lparr>maxPlayers = js_number (3 / 2), difficulty = ''Easy''\<rparr>\<rparr>"

definition minus_msg :: join_msg where
  "minus_msg = \<lparr>jm_roomId = ''pit'',
     jm_settings = Some \<lparr>maxPlayers = js_number (- 1), difficulty = ''Easy''\<rparr>\<rparr>"

definition loft :: server where
  "loft = run [(0, Join ''a'' half_msg), (1, Join ''b'' half_msg)] boot"

definition pit :: server where
  "pit = run [(0, Join ''a'' minus_msg)] boot"

definition den_flap :: server where
  "den_flap = run [(0, Join ''a'' duo_msg), (1000, Disconnect ''a''), (5000, Join ''b'' duo_msg),
     (6000, Disconnect ''b'')] boot"






section \<open>Rules for the loops\<close>

lemma downfrom_inv:
  assumes "P s" and "\<And>i s. i < n \<Longrightarrow> P s \<Longrightarrow> P (body i s)"
  shows "P (downfrom n body s)"
  using assms by (induction n arbitrary: s) auto

lemma upfrom_inv:
  assumes "P s" and "\<And>i s. i < n \<Longrightarrow> P s \<Longrightarrow> P (body i s)"
  shows "P (upfrom n body s)"
  using assms unfolding upfrom_def by (induction n arbitrary: s) auto

lemma for_in_inv:
  assumes "P s" and "\<And>k s. k \<in> fst ` set obj \<Longrightarrow> P s \<Longrightarrow> P (body k s)"
  shows "P (for_in obj body s)"
proof -
  have "\<And>s. P s \<Longrightarrow> set ks \<subseteq> fst ` set obj \<Longrightarrow> P (fold body ks s)" for ks
    by (induction ks) (auto simp: assms(2))
  then show ?thesis using assms(1) unfolding for_in_def by simp
qed

lemma keys_update_existing:
  "map_of al k = Some v0 \<Longrightarrow> map fst (AList.update k v al) = map fst al"
  by (auto simp: update_keys dest: map_of_SomeD intro: rev_image_eqI)

lemma frame_spawnMonster: "frame (fst (spawnMonster room ty w)) = frame room"
  by (simp add: spawnMonster_def frame_def push_monster_def Let_def case_prod_beta)

lemma frame_spawnPowerup: "frame (fst (spawnPowerup room w)) = frame room"
  by (simp add: spawnPowerup_def frame_def Let_def case_prod_beta)

lemma frame_spawnNeutral: "frame (fst (spawnNeutral room w)) = frame room"
  by (simp add: spawnNeutral_def frame_def Let_def case_prod_beta)

subsection \<open>What a tick leaves alone\<close>

lemma frame_upd [simp]:
  "frame (r\<lparr>lastSpawnAt := a\<rparr>) = frame r"
  "frame (r\<lparr>lastPowerAt := a\<rparr>) = frame r"
  "frame (r\<lparr>lastNeutralAt := a\<rparr>) = frame r"
  "frame (r\<lparr>bullets := bs\<rparr>) = frame r"
  "frame (r\<lparr>monsters := ms\<rparr>) = frame r"
  "frame (r\<lparr>neutrals := ns\<rparr>) = frame r"
  "frame (r\<lparr>powerups := us\<rparr>) = frame r"
  "frame (r\<lparr>bombs := bms\<rparr>) = frame r"
  "frame (r\<lparr>effects := es\<rparr>) = frame r"
  by (simp_all add: frame_def)

lemma frame_players [simp]: "frame (r\<lparr>players := ps\<rparr>) = (map fst ps, snd (frame r))"
  by (simp add: frame_def)

lemma frame_rejoin [simp]: "(map fst (players r), snd (frame r)) = frame r"
  by (simp add: frame_def)

lemma frame_run_spawns: "frame (fst (run_spawns room now w)) = frame room"
  by (simp add: run_spawns_def Let_def case_prod_beta frame_spawnMonster frame_spawnPowerup
      frame_spawnNeutral)

lemma frame_shot: "frame (fst (shot p now c sp i s)) = frame (fst s)"
  by (simp add: shot_def Let_def case_prod_beta)

lemma frame_tryShoot: "frame (fst (tryShoot room p now w)) = frame room"
proof -
  have "frame (fst (upfrom n (shot q now c sp) (room, w))) = frame room" for n q c sp
    by (rule upfrom_inv) (simp_all add: frame_shot)
  then show ?thesis
    by (simp add: tryShoot_def Let_def case_prod_beta)
qed

lemma players_shot: "players (fst (shot p now c sp i s)) = players (fst s)"
  by (simp add: shot_def Let_def case_prod_beta)

lemma players_tryShoot: "players (fst (tryShoot room p now w)) = players room"
proof -
  have "players (fst (upfrom n (shot q now c sp) (room, w))) = players room" for n q c sp
    by (rule upfrom_inv) (simp_all add: players_shot)
  then show ?thesis
    by (simp add: tryShoot_def Let_def case_prod_beta)
qed

lemma frame_move_player: "frame (fst (move_player dt now k s)) = frame (fst s)"
  by (cases s)
     (auto simp: move_player_def Let_def case_prod_beta frame_tryShoot players_tryShoot
        keys_update_existing split: option.splits)

lemma frame_move_players: "frame (fst (move_players dt now s)) = frame (fst s)"
  unfolding move_players_def case_prod_beta
  by (rule for_in_inv) (simp_all add: frame_move_player)

lemma frame_enemy_step: "frame (fst (enemy_step dt now i s)) = frame (fst s)"
  by (simp add: enemy_step_def Let_def case_prod_beta split: option.splits)

lemma frame_updateEnemies: "frame (fst (updateEnemies room dt now w)) = frame room"
  unfolding updateEnemies_def
  by (rule downfrom_inv) (simp_all add: frame_enemy_step)

lemma frame_blast_step: "frame (blast_step b j room) = frame room"
  by (simp add: blast_step_def Let_def)

lemma frame_bomb_step: "frame (fst (bomb_step dt now i s)) = frame (fst s)"
proof -
  have "frame (downfrom n (blast_step b) r) = frame r" for n b r
    by (rule downfrom_inv) (simp_all add: frame_blast_step)
  then show ?thesis
    by (simp add: bomb_step_def Let_def case_prod_beta)
qed

lemma frame_update_bombs: "frame (fst (update_bombs dt now s)) = frame (fst s)"
  unfolding update_bombs_def case_prod_beta
  by (rule downfrom_inv) (simp_all add: frame_bomb_step)

lemma frame_prune_effects: "frame (prune_effects now room) = frame room"
  unfolding prune_effects_def
  by (rule downfrom_inv) (simp_all add: prune_effect_def)

lemma frame_cull_bullets: "frame (cull_bullets dt now room) = frame room"
  unfolding cull_bullets_def
  by (rule downfrom_inv) (simp_all add: cull_step_def Let_def)

lemma frame_credit_owner: "frame (credit_owner k room) = frame room"
  by (simp add: credit_owner_def keys_update_existing split: option.splits)

lemma frame_spawn_mini: "frame (fst (spawn_mini m k s)) = frame (fst s)"
  by (simp add: spawn_mini_def push_monster_def Let_def case_prod_beta)

lemma frame_hit_monster: "frame (fst (hit_monster b j s)) = frame (fst s)"
proof -
  have "frame (fst (upfrom n (spawn_mini m) t)) = frame (fst t)" for n m t
    by (rule upfrom_inv) (simp_all add: frame_spawn_mini)
  then show ?thesis
    by (simp add: hit_monster_def Let_def case_prod_beta frame_credit_owner)
qed

lemma frame_monster_scan: "frame (fst (fst (monster_scan j b s))) = frame (fst s)"
  by (induction j) (simp_all add: Let_def frame_hit_monster)

lemma frame_bullet_monster_step: "frame (fst (bullet_monster_step i s)) = frame (fst s)"
  using frame_monster_scan [of "length (monsters (fst s))" "bullets (fst s) ! i" s]
  by (cases s) (simp add: bullet_monster_step_def Let_def case_prod_beta)

lemma frame_bullets_vs_monsters: "frame (fst (bullets_vs_monsters s)) = frame (fst s)"
  unfolding bullets_vs_monsters_def case_prod_beta
  by (rule downfrom_inv) (simp_all add: frame_bullet_monster_step)

lemma frame_powerup_step: "frame (fst (powerup_step k now i s)) = frame (fst s)"
  by (simp add: powerup_step_def Let_def case_prod_beta keys_update_existing split: option.splits)

lemma frame_players_vs_powerups: "frame (fst (players_vs_powerups now s)) = frame (fst s)"
proof -
  have pick: "frame (fst (pickup_powerups now k t)) = frame (fst t)" for k t
    unfolding pickup_powerups_def case_prod_beta
    by (rule downfrom_inv) (simp_all add: frame_powerup_step)
  show ?thesis
    unfolding players_vs_powerups_def case_prod_beta
    by (rule for_in_inv) (simp_all add: pick)
qed

lemma frame_move_neutrals: "frame (fst (move_neutrals dt s)) = frame (fst s)"
  unfolding move_neutrals_def case_prod_beta
  by (rule upfrom_inv) (simp_all add: neutral_step_def case_prod_beta Let_def)

lemma frame_neutral_scan: "frame (neutral_scan j b i room) = frame room"
  by (induction j) (simp_all add: hit_neutral_def Let_def)

lemma frame_bullets_vs_neutrals: "frame (bullets_vs_neutrals room) = frame room"
  unfolding bullets_vs_neutrals_def
  by (rule downfrom_inv) (simp_all add: bullet_neutral_step_def frame_neutral_scan)

lemma frame_contact_step: "frame (fst (contact_step now k s)) = frame (fst s)"
  by (simp add: contact_step_def Let_def case_prod_beta keys_update_existing split: option.splits)

lemma frame_monsters_vs_players: "frame (fst (monsters_vs_players now s)) = frame (fst s)"
  unfolding monsters_vs_players_def case_prod_beta
  by (rule for_in_inv) (simp_all add: frame_contact_step)

lemma frame_updateRoom: "frame (fst (updateRoom room dt now w)) = frame room"
  by (simp add: updateRoom_def frame_monsters_vs_players frame_bullets_vs_neutrals
      frame_move_neutrals frame_players_vs_powerups frame_bullets_vs_monsters frame_cull_bullets
      frame_prune_effects frame_update_bombs frame_updateEnemies frame_move_players
      frame_run_spawns case_prod_beta Let_def)

lemma set_update_subset: "set (AList.update k v al) \<subseteq> insert (k, v) (set al)"
  by (induction al) auto

lemma set_delete_subset: "set (AList.delete k al) \<subseteq> set al"
  by (induction al) auto

lemma length_update_le: "length (AList.update k v al) \<le> Suc (length al)"
  by (induction al) auto

lemma length_delete_le: "length (AList.delete k al) \<le> length al"
  by (induction al) auto

lemma frame_countPlayers: "frame r' = frame r \<Longrightarrow> countPlayers r' = countPlayers r"
  by (simp add: frame_def countPlayers_def del: length_map)

lemma within_capacity_frame: "frame r' = frame r \<Longrightarrow> within_capacity r' = within_capacity r"
proof -
  assume f: "frame r' = frame r"
  have "countPlayers r' = countPlayers r" "r_settings r' = r_settings r"
    using f frame_countPlayers [OF f] by (simp_all add: frame_def)
  then show ?thesis
    by (simp add: within_capacity_def split: option.splits)
qed

lemma room_ok_frame: "frame r' = frame r \<Longrightarrow> room_ok (rid, r') = room_ok (rid, r)"
proof -
  assume f: "frame r' = frame r"
  have "r_id r' = r_id r"
    using f by (simp add: frame_def)
  then show ?thesis
    using within_capacity_frame [OF f] by (simp add: room_ok_def)
qed

lemma whole_number_next: "whole_number m \<Longrightarrow> real n < m \<Longrightarrow> real (Suc n) \<le> m"
proof -
  assume w: "whole_number m" and lt: "real n < m"
  have "real_of_int \<lfloor>m\<rfloor> = m"
    using w unfolding whole_number_def by blast
  then obtain k :: int where k: "m = real_of_int k"
    by metis
  have "int n < k"
    using lt unfolding k by linarith
  then have "int (Suc n) \<le> k"
    by simp
  then show ?thesis
    unfolding k by linarith
qed

lemma registry_ok_lookup: "registry_ok s \<Longrightarrow> map_of (rooms s) rid = Some room \<Longrightarrow> room_ok (rid, room)"
  by (auto simp: registry_ok_def list_all_iff dest: map_of_SomeD)

lemma registry_ok_update:
  "list_all room_ok rs \<Longrightarrow> room_ok (rid, room) \<Longrightarrow> list_all room_ok (AList.update rid room rs)"
  using set_update_subset [of rid room rs] by (auto simp: list_all_iff)

lemma registry_ok_delete: "list_all room_ok rs \<Longrightarrow> list_all room_ok (AList.delete rid rs)"
  using set_delete_subset [of rid rs] by (auto simp: list_all_iff)

lemma registry_ok_put_room:
  assumes "registry_ok s" "map_of (rooms s) rid = Some room" "frame room' = frame room"
  shows "registry_ok (put_room rid room' s)"
  using assms registry_ok_lookup [OF assms(1,2)] room_ok_frame [OF assms(3), of rid]
  by (simp add: put_room_def registry_ok_def registry_ok_update)

lemma registry_ok_env [simp]: "registry_ok (s\<lparr>env := w\<rparr>) = registry_ok s"
  by (simp add: registry_ok_def)

lemma registry_ok_last [simp]: "registry_ok (s\<lparr>last_tick := t\<rparr>) = registry_ok s"
  by (simp add: registry_ok_def)

lemma registry_ok_objects [simp]: "registry_ok (s\<lparr>objects := n\<rparr>) = registry_ok s"
  by (simp add: registry_ok_def)

lemma socket_room_SomeD: "socket_room s sid = Some (rid, room) \<Longrightarrow> map_of (rooms s) rid = Some room"
  by (auto simp: socket_room_def split: option.splits)

lemma room_ok_createRoom: "room_ok (rid, fst (createRoom rs rid st))"
  by (simp add: createRoom_def room_ok_def within_capacity_def whole_number_def countPlayers_def
      Let_def split: option.splits)

lemma registry_ok_on_join: "registry_ok s \<Longrightarrow> registry_ok (fst (on_join sid msg s))"
proof -
  assume ok: "registry_ok s"
  define rid where "rid = join_roomId msg"
  obtain room rooms1 where g: "getOrCreateRoom (rooms s) rid (join_settings msg) = (room, rooms1)"
    by (cases "getOrCreateRoom (rooms s) rid (join_settings msg)")
  have r1: "list_all room_ok rooms1" and rok: "room_ok (rid, room)"
    using g ok room_ok_createRoom [of rid "rooms s" "join_settings msg"]
    by (auto simp: getOrCreateRoom_def createRoom_def Let_def registry_ok_def registry_ok_update
          dest: registry_ok_lookup [OF ok] split: option.splits)
  show ?thesis
  proof (cases "count_reaches (countPlayers room) (maxPlayers (r_settings room))")
    case True
    then show ?thesis using g r1
      by (simp add: on_join_def rid_def [symmetric] registry_ok_def)
  next
    case False
    have "within_capacity (room\<lparr>players := AList.update sid p (players room)\<rparr>)" for p
    proof (cases "to_number (maxPlayers (r_settings room))")
      case None
      then show ?thesis by (simp add: within_capacity_def)
    next
      case (Some m)
      show ?thesis
      proof (cases "whole_number m")
        case True
        have "real (countPlayers room) < m"
          using False Some by (simp add: count_reaches_def)
        then have "real (Suc (countPlayers room)) \<le> m"
          using True by (intro whole_number_next)
        moreover have "countPlayers (room\<lparr>players := AList.update sid p (players room)\<rparr>)
            \<le> Suc (countPlayers room)"
          using length_update_le [of sid p "players room"] by (simp add: countPlayers_def)
        ultimately show ?thesis
          using Some True by (simp add: within_capacity_def)
      next
        case False
        then show ?thesis using Some by (simp add: within_capacity_def)
      qed
    qed
    then have "room_ok (rid, room\<lparr>players := AList.update sid p (players room)\<rparr>)" for p
      using rok by (simp add: room_ok_def)
    then show ?thesis using g r1 False
      by (simp add: on_join_def rid_def [symmetric] registry_ok_def Let_def case_prod_beta
            registry_ok_update)
  qed
qed

lemma registry_ok_on_input: "registry_ok s \<Longrightarrow> registry_ok (on_input sid d s)"
  by (auto simp: on_input_def keys_update_existing split: option.splits
        dest!: socket_room_SomeD intro!: registry_ok_put_room)

lemma keys_update_member: "k \<in> set (map fst al) \<Longrightarrow> map fst (AList.update k v al) = map fst al"
  by (simp add: update_keys)

lemma frame_burst_shot: "frame (fst (burst_shot p now i s)) = frame (fst s)"
  by (simp add: burst_shot_def Let_def case_prod_beta)

lemma frame_beam_step: "frame (fst (beam_step x1 y1 x2 y2 i s)) = frame (fst s)"
  by (simp add: beam_step_def Let_def case_prod_beta)

lemma frame_useAbility: "frame (fst (useAbility room p ty now w)) = frame room"
proof -
  have burst: "frame (fst (upfrom n (burst_shot q now) (room, w))) = frame room" for n q
    by (rule upfrom_inv) (simp_all add: frame_burst_shot)
  have beam: "frame (fst (downfrom n (beam_step a b c d) (room, q))) = frame room" for n a b c d q
    by (rule downfrom_inv) (simp_all add: frame_beam_step)
  show ?thesis
    by (simp add: useAbility_def Let_def case_prod_beta burst beam)
qed

lemma registry_ok_on_ability: "registry_ok s \<Longrightarrow> registry_ok (on_ability sid ty s)"
proof -
  assume ok: "registry_ok s"
  show ?thesis
  proof (cases "socket_room s sid")
    case None
    then show ?thesis using ok by (simp add: on_ability_def)
  next
    case (Some a)
    obtain rid room where a: "a = (rid, room)" by (cases a)
    show ?thesis
    proof (cases "map_of (players room) sid")
      case None
      then show ?thesis using ok Some a by (simp add: on_ability_def)
    next
      case (Some p)
      define res where "res = useAbility room p ty (clock (env s)) (env s)"
      have fr: "frame (fst res) = frame room"
        by (simp add: res_def frame_useAbility)
      have keys: "map fst (players (fst res)) = map fst (players room)"
        using fr by (simp add: frame_def)
      have "sid \<in> set (map fst (players room))"
        using Some by (auto dest: map_of_SomeD intro: rev_image_eqI)
      then have "map fst (AList.update sid q (players (fst res))) = map fst (players room)" for q
        using keys by (simp add: keys_update_member del: set_map)
      then have "frame ((fst res)\<lparr>players := AList.update sid q (players (fst res))\<rparr>) = frame room" for q
        using fr by simp
      then show ?thesis
        using ok Some a \<open>socket_room s sid = Some a\<close>
        by (auto simp: on_ability_def Let_def case_prod_beta res_def [symmetric]
              dest!: socket_room_SomeD intro!: registry_ok_put_room)
    qed
  qed
qed

lemma registry_ok_on_disconnect: "registry_ok s \<Longrightarrow> registry_ok (on_disconnect sid s)"
proof -
  assume ok: "registry_ok s"
  have "room_ok (rid, room\<lparr>players := AList.delete sid (players room)\<rparr>)"
    if "map_of (rooms s) rid = Some room" for rid room
    using registry_ok_lookup [OF ok that] length_delete_le [of sid "players room"]
    by (auto simp: room_ok_def within_capacity_def countPlayers_def split: option.splits)
  then show ?thesis using ok
    by (auto simp: on_disconnect_def put_room_def registry_ok_def registry_ok_update
          split: option.splits dest!: socket_room_SomeD)
qed

lemma registry_ok_run_callback: "registry_ok s \<Longrightarrow> registry_ok (run_callback cb s)"
proof (cases cb)
  case (RoomGc sid)
  assume "registry_ok s"
  then show ?thesis using RoomGc
    by (auto simp: registry_ok_def registry_ok_delete split: option.splits)
next
  case (BuffExpire rid k obj bf)
  assume "registry_ok s"
  then show ?thesis using BuffExpire
    by (auto simp: keys_update_existing split: option.splits intro!: registry_ok_put_room)
qed

lemma registry_ok_fire: "registry_ok s \<Longrightarrow> registry_ok (fire n s)"
  by (simp add: fire_def Let_def registry_ok_run_callback)

lemma registry_ok_tick_room: "registry_ok s \<Longrightarrow> registry_ok (tick_room dt now k s)"
proof -
  assume ok: "registry_ok s"
  have "registry_ok (put_room k (fst (updateRoom room dt now (env s))) s)"
    if "map_of (rooms s) k = Some room" for room
    using ok that by (rule registry_ok_put_room) (rule frame_updateRoom)
  then show ?thesis using ok
    by (auto simp: tick_room_def case_prod_beta put_room_def registry_ok_def split: option.splits)
qed

lemma registry_ok_on_tick: "registry_ok s \<Longrightarrow> registry_ok (on_tick s)"
  unfolding on_tick_def Let_def
  by (rule for_in_inv) (simp_all add: registry_ok_tick_room)

lemma registry_ok_step: "registry_ok s \<Longrightarrow> registry_ok (step te s)"
proof -
  assume ok: "registry_ok s"
  obtain t e where te: "te = (t, e)" by (cases te)
  have ok': "registry_ok (s\<lparr>env := (env s)\<lparr>clock := t\<rparr>\<rparr>)"
    using ok by simp
  show ?thesis
    unfolding te step_def prod.case
    by (cases e)
       (simp_all add: ok registry_ok_on_join registry_ok_on_input registry_ok_on_ability
          registry_ok_on_disconnect registry_ok_on_tick registry_ok_fire)
qed

lemma registry_ok_start: "registry_ok (start r u t0)"
  by (simp add: start_def registry_ok_def)

lemma registry_ok_run: "registry_ok s \<Longrightarrow> registry_ok (run evs s)"
  unfolding run_def by (induction evs arbitrary: s) (simp_all add: registry_ok_step)

subsection \<open>Abilities, branch by branch\<close>

lemma useAbility_gated:
  "now < ready_at ty p \<Longrightarrow> useAbility room p ty now w = (room, p, w)"
  by (auto simp: useAbility_def ready_at_def Let_def split: if_splits)

lemma upfrom_0: "upfrom 0 body s = s"
  by (simp add: upfrom_def)

lemma upfrom_Suc: "upfrom (Suc n) body s = body n (upfrom n body s)"
  by (simp add: upfrom_def)

lemma burst_shot_length:
  "length (bullets (fst (burst_shot p now i s))) = Suc (length (bullets (fst s)))"
  by (cases s) (simp add: burst_shot_def uuidv4_def Let_def)

lemma length_burst: 
  "length (bullets (fst (upfrom n (burst_shot p now) s))) = length (bullets (fst s)) + n"
  by (induction n) (simp_all add: upfrom_0 upfrom_Suc burst_shot_length)

lemma beam_step_cd: "p_abilityCd (snd (beam_step x1 y1 x2 y2 i s)) = p_abilityCd (snd s)"
  by (cases s) (simp add: beam_step_def Let_def)

lemma beam_loop_cd:
  "p_abilityCd (snd (downfrom n (beam_step x1 y1 x2 y2) s)) = p_abilityCd (snd s)"
  by (induction n arbitrary: s) (simp_all add: beam_step_cd)

lemma useAbility_burst:
  "useAbility room p ''burst'' now w =
     (if now < cd_burst (p_abilityCd p) then (room, p, w)
      else let p1 = p\<lparr>p_abilityCd := (p_abilityCd p)\<lparr>cd_burst := now + 3000\<rparr>\<rparr>;
               s1 = upfrom 9 (burst_shot p1 now) (room, w)
           in (fst s1, p1, snd s1))"
  by (simp add: useAbility_def Let_def case_prod_beta)

lemma useAbility_dash:
  "useAbility room p ''dash'' now w =
     (if now < cd_dash (p_abilityCd p) then (room, p, w)
      else let p5 = p\<lparr>p_abilityCd := (p_abilityCd p)\<lparr>cd_dash := now + 6000\<rparr>,
                      dashingUntil := now + 240, iFramesUntil := now + 360,
                      p_x := p_x p + dirX p * 60, p_y := p_y p + dirY p * 60\<rparr>
           in (room\<lparr>effects := effects room @
                 [DashFx (uuid w (uuid_used w)) (p_x p) (p_y p) (p_x p5) (p_y p5) (now + 220)]\<rparr>,
               p5, w\<lparr>uuid_used := Suc (uuid_used w)\<rparr>))"
  by (simp add: useAbility_def Let_def case_prod_beta uuidv4_def)

lemma useAbility_grenade:
  "useAbility room p ''grenade'' now w =
     (if now < cd_grenade (p_abilityCd p) then (room, p, w)
      else let p1 = p\<lparr>p_abilityCd := (p_abilityCd p)\<lparr>cd_grenade := now + 5000\<rparr>\<rparr>
           in (room\<lparr>bombs := bombs room @
                 [\<lparr>bm_id = uuid w (uuid_used w), bm_x = p_x p + dirX p * 20,
                   bm_y = p_y p + dirY p * 20, bm_vx = dirX p * 260, bm_vy = dirY p * 260,
                   explodeAt = now + 900, bm_radius = 120, bm_ownerId = p_id p\<rparr>]\<rparr>,
               p1, w\<lparr>uuid_used := Suc (uuid_used w)\<rparr>))"
  by (simp add: useAbility_def Let_def case_prod_beta uuidv4_def)

lemma useAbility_beam:
  "useAbility room p ''beam'' now w =
     (if now < cd_beam (p_abilityCd p) then (room, p, w)
      else let p1 = p\<lparr>p_abilityCd := (p_abilityCd p)\<lparr>cd_beam := now + 8000\<rparr>\<rparr>;
               x2 = p_x p + dirX p * 800;
               y2 = p_y p + dirY p * 800;
               s1 = downfrom (length (monsters room)) (beam_step (p_x p) (p_y p) x2 y2) (room, p1)
           in ((fst s1)\<lparr>effects := effects (fst s1) @
                 [BeamFx (uuid w (uuid_used w)) (p_x p) (p_y p) x2 y2 (now + 150)]\<rparr>,
               snd s1, w\<lparr>uuid_used := Suc (uuid_used w)\<rparr>))"
  by (simp add: useAbility_def Let_def case_prod_beta uuidv4_def)

subsection \<open>Sample runs\<close>

lemma lobby1_rooms: "rooms lobby1 = [(''lobby'', lobby_room)]"
  by (simp add: lobby1_def lobby_room_def run_def step_def boot_def start_def on_join_def
      solo_msg_def join_roomId_def join_settings_def getOrCreateRoom_def createRoom_def count_reaches_def js_number_def
      countPlayers_def Let_def randomInWorld_def random_def WORLD_width_def WORLD_height_def)

subsection \<open>Contact under a shield\<close>

lemma contact_step_shielded:
  assumes "map_of (players room) k = Some p" "now < shieldUntil (p_buffs p)"
  shows "map_of (players (fst (contact_step now k' (room, w)))) k = Some p"
  using assms
  by (auto simp: contact_step_def Let_def case_prod_beta update_conv' split: option.splits)

lemma updateRoom_contact_room:
  "fst (updateRoom contact_room (1 / 60) 1000 sample_io) = contact_room"
  apply (simp add: updateRoom_def run_spawns_def scaleForPlayers_def countPlayers_def
     contact_room_def arena_def createRoom_def Let_def)
  apply (simp add: move_players_def for_in_def move_player_def integrate_player_def
     normalize_xy_def length_xy_def hypot_def guarded_def alice_def new_player_def tryShoot_def
     Let_def clamp_def PLAYER_RADIUS_def WORLD_width_def WORLD_height_def)
  apply (simp add: updateEnemies_def enemy_step_def nearestPlayer_def dist_xy_def hypot_def
     monster_at_def ai_chaser_def to_player_def normalize_xy_def length_xy_def lerp_def
     move_by_def keep_in_bounds_def clamp_def Let_def)
  apply (simp add: update_bombs_def prune_effects_def cull_bullets_def bullets_vs_monsters_def
     players_vs_powerups_def for_in_def pickup_powerups_def move_neutrals_def upfrom_def
     bullets_vs_neutrals_def monsters_vs_players_def contact_step_def circleCollide_def Let_def)
  done


subsection \<open>More sample runs\<close>

lemma den1_rooms: "rooms den1 = [(''den'', den_room)]"
  by (simp add: den1_def den_room_def run_def step_def boot_def start_def on_join_def
      duo_msg_def join_roomId_def join_settings_def getOrCreateRoom_def createRoom_def count_reaches_def js_number_def
      countPlayers_def Let_def randomInWorld_def random_def WORLD_width_def WORLD_height_def)

lemma reachable_ids:
  assumes "s = run evs (start r u t0)" "socket_room s sid = Some (rid, room)"
  shows "r_id room = rid"
proof -
  have "registry_ok s"
    unfolding assms(1) by (rule registry_ok_run) (rule registry_ok_start)
  from registry_ok_lookup [OF this socket_room_SomeD [OF assms(2)]]
  show ?thesis by (simp add: room_ok_def)
qed

lemma den_left_facts:
  "sched (env den_left) = [(11000, RoomGc ''a'')]"
  "socket_room den_left ''a'' = Some (''den'', den_room\<lparr>players := []\<rparr>)"
  by (simp_all add: den_left_def den_room_def run_def step_def boot_def start_def on_join_def
      on_disconnect_def socket_room_def put_room_def setTimeout_def
      duo_msg_def join_roomId_def join_settings_def getOrCreateRoom_def createRoom_def count_reaches_def js_number_def
      countPlayers_def Let_def randomInWorld_def random_def WORLD_width_def WORLD_height_def)

lemma den_back_facts:
  "sched (env den_back) = [(11000, RoomGc ''a'')]"
  "socket_room den_back ''a'' =
     Some (''den'', den_room\<lparr>players := [(''b'', new_player 1 ''b'' (1200, 900) (1 / 2))]\<rparr>)"
  "socket_room den_back ''b'' =
     Some (''den'', den_room\<lparr>players := [(''b'', new_player 1 ''b'' (1200, 900) (1 / 2))]\<rparr>)"
  by (simp_all add: den_back_def den_room_def run_def step_def boot_def start_def on_join_def
      on_disconnect_def socket_room_def put_room_def setTimeout_def
      duo_msg_def join_roomId_def join_settings_def getOrCreateRoom_def createRoom_def count_reaches_def js_number_def
      countPlayers_def Let_def randomInWorld_def random_def WORLD_width_def WORLD_height_def)

subsection \<open>Scaling and spawning\<close>

lemma scaleForPlayers_eq:
  "countPlayers room = n \<Longrightarrow> 1 \<le> n \<Longrightarrow> scaleForPlayers room = (n, 1 + 0.35 * (real n - 1))"
  by (simp add: scaleForPlayers_def Let_def max_def)

lemma spawnMonster_full:
  assumes "scaleForPlayers room = (n, f)" "16 + 10 * (n - 1) \<le> length (monsters room)"
  shows "spawnMonster room ty w = (room, w)"
  using assms by (simp add: spawnMonster_def Let_def mult.commute)

lemma spawnMonster_new:
  assumes "scaleForPlayers room = (n, f)" "length (monsters room) < 16 + 10 * (n - 1)"
  shows "\<exists>m. monsters (fst (spawnMonster room ty w)) = monsters room @ [m]
           \<and> m_hp m = js_round (real_of_int (spec_baseHp (ENEMY_TYPES (m_type m))) * sqrt f)
           \<and> m_maxHp m = m_hp m
           \<and> m_baseSpeed m = spec_baseSpeed (ENEMY_TYPES (m_type m)) * (0.75 + 0.25 * f)"
  using assms
  by (simp add: spawnMonster_def Let_def mult.commute case_prod_beta push_monster_def)

lemma monsters_spawnPowerup: "monsters (fst (spawnPowerup room w)) = monsters room"
  "lastSpawnAt (fst (spawnPowerup room w)) = lastSpawnAt room"
  by (simp_all add: spawnPowerup_def Let_def case_prod_beta)

lemma monsters_spawnNeutral: "monsters (fst (spawnNeutral room w)) = monsters room"
  "lastSpawnAt (fst (spawnNeutral room w)) = lastSpawnAt room"
  by (simp_all add: spawnNeutral_def Let_def case_prod_beta)

lemma lastSpawnAt_spawnMonster: "lastSpawnAt (fst (spawnMonster room ty w)) = lastSpawnAt room"
  by (simp add: spawnMonster_def Let_def case_prod_beta push_monster_def)

lemma run_spawns_gate:
  assumes "scaleForPlayers room = (n, f)"
  shows "monsters (fst (run_spawns room now w)) =
           (if now - lastSpawnAt room > 2400 / f
            then monsters (fst (spawnMonster (room\<lparr>lastSpawnAt := now\<rparr>) None w))
            else monsters room)"
    and "lastSpawnAt (fst (run_spawns room now w)) =
           (if now - lastSpawnAt room > 2400 / f then now else lastSpawnAt room)"
  using assms
  by (simp_all add: run_spawns_def Let_def case_prod_beta monsters_spawnPowerup
      monsters_spawnNeutral lastSpawnAt_spawnMonster)

subsection \<open>Loops that splice as they go down\<close>

lemma splice1_update: "splice1 i (xs[i := a]) = splice1 i xs"
  by (simp add: splice1_def)

lemma update_as_splice:
  "i < length xs \<Longrightarrow> xs[i := a] = take i xs @ [a] @ drop (Suc i) xs"
  by (simp add: upd_conv_take_nth_drop)








subsection \<open>Bullets\<close>






lemma upfrom_2: "upfrom 2 body s = body 1 (body 0 s)"
proof -
  have "[0..<2] = [0, Suc 0]" by (simp add: upt_rec)
  then show ?thesis by (simp add: upfrom_def)
qed

lemma spawn_mini_eq:
  "spawn_mini m k (room, w) =
     (room\<lparr>monsters := monsters room @
        [mini_of m (uuid w (uuid_used w)) (rnd w (rnd_used w)) (rnd w (Suc (rnd_used w)))]\<rparr>,
      w\<lparr>uuid_used := Suc (uuid_used w), rnd_used := Suc (Suc (rnd_used w))\<rparr>)"
  by (simp add: spawn_mini_def mini_of_def Let_def uuidv4_def random_def push_monster_def)

lemma monsters_credit_owner [simp]:
  "monsters (credit_owner k room) = monsters room"
  "bullets (credit_owner k room) = bullets room"
  by (simp_all add: credit_owner_def split: option.splits)

lemma splice1_append: "j < length xs \<Longrightarrow> splice1 j (xs @ ys) = splice1 j xs @ ys"
  by (simp add: splice1_def)







subsection \<open>Kills by bomb and beam, and the edges of the world\<close>

lemma updateRoom_vacant:
  "monsters (fst (updateRoom vacant (1 / 60) 1000 sample_io)) = []"
  apply (simp add: updateRoom_def run_spawns_def scaleForPlayers_def countPlayers_def
     vacant_def arena_def createRoom_def Let_def)
  apply (simp add: move_players_def for_in_def)
  apply (simp add: updateEnemies_def enemy_step_def nearestPlayer_def Let_def)
  apply (simp add: update_bombs_def bomb_step_def drift_def live_bomb_def Let_def
     blast_step_def dist_xy_def hypot_def monster_at_def uuidv4_def splice1_def)
  apply (simp add: prune_effects_def prune_effect_def sample_io_def cull_bullets_def
     bullets_vs_monsters_def
     players_vs_powerups_def for_in_def pickup_powerups_def move_neutrals_def upfrom_def
     bullets_vs_neutrals_def monsters_vs_players_def Let_def)
  done

lemma beam_on_splitter:
  "monsters (fst (useAbility beam_room alice ''beam'' 1000 sample_io)) = []"
  "kills (fst (snd (useAbility beam_room alice ''beam'' 1000 sample_io))) = 1"
  by (simp_all add: useAbility_beam beam_room_def arena_def createRoom_def alice_def
      new_player_def Let_def beam_step_def monster_at_def dist_xy_def hypot_def splice1_def)

lemma clamp_between: "lo \<le> hi \<Longrightarrow> lo \<le> clamp v lo hi \<and> clamp v lo hi \<le> hi"
  by (simp add: clamp_def)

lemma integrate_player_radius: "p_radius (integrate_player wd dt now p) = p_radius p"
  by (simp add: integrate_player_def Let_def case_prod_beta)

lemma integrate_player_inside:
  assumes "2 * p_radius p \<le> width wd" "2 * p_radius p \<le> height wd"
  shows "inside wd (p_radius p) (p_x (integrate_player wd dt now p)) (p_y (integrate_player wd dt now p))"
  using assms clamp_between [of "p_radius p" "width wd - p_radius p"]
    clamp_between [of "p_radius p" "height wd - p_radius p"]
  by (simp add: integrate_player_def Let_def case_prod_beta inside_def)

lemma keep_in_bounds_inside:
  assumes "2 * m_radius m \<le> width wd" "2 * m_radius m \<le> height wd"
  shows "inside wd (m_radius m) (m_x (keep_in_bounds wd m)) (m_y (keep_in_bounds wd m))"
  using assms clamp_between [of "m_radius m" "width wd - m_radius m"]
    clamp_between [of "m_radius m" "height wd - m_radius m"]
  by (simp add: keep_in_bounds_def Let_def inside_def)

lemma wander_inside:
  assumes "2 * n_r n \<le> width wd" "2 * n_r n \<le> height wd"
  shows "inside wd (n_r n) (n_x (fst (wander wd dt n w))) (n_y (fst (wander wd dt n w)))"
  using assms clamp_between [of "n_r n" "width wd - n_r n"]
    clamp_between [of "n_r n" "height wd - n_r n"]
  by (simp add: wander_def Let_def case_prod_beta inside_def)

lemma hit_monster_split:
  assumes "j < length (monsters room)" "m_type (monsters room ! j) = Splitter"
    "m_hp (monsters room ! j) \<le> 1"
  shows "monsters (fst (hit_monster b j (room, w))) =
     splice1 j (monsters room) @
       [mini_of (monsters room ! j) (uuid w (uuid_used w)) (rnd w (rnd_used w)) (rnd w (Suc (rnd_used w))),
        mini_of (monsters room ! j) (uuid w (Suc (uuid_used w))) (rnd w (Suc (Suc (rnd_used w))))
          (rnd w (Suc (Suc (Suc (rnd_used w)))))]"
  using assms
  by (simp add: hit_monster_def Let_def upfrom_2 spawn_mini_eq splice1_append splice1_update
      mini_of_def)

subsection \<open>Runs with other settings, and the room timer\<close>

lemmas run_simps = run_def step_def boot_def start_def on_join_def
      on_disconnect_def socket_room_def put_room_def setTimeout_def fire_def splice1_def
      join_roomId_def join_settings_def getOrCreateRoom_def createRoom_def
      count_reaches_def js_number_def
      countPlayers_def Let_def randomInWorld_def random_def WORLD_width_def WORLD_height_def

lemma loft_facts:
  "map fst (rooms loft) = [''loft'']"
  "map (countPlayers \<circ> snd) (rooms loft) = [2]"
  "map (to_number \<circ> maxPlayers \<circ> r_settings \<circ> snd) (rooms loft) = [Some (3 / 2)]"
  by (simp_all add: loft_def half_msg_def run_simps)

lemma pit_facts:
  "map fst (rooms pit) = [''pit'']"
  "map (countPlayers \<circ> snd) (rooms pit) = [0]"
  "map (to_number \<circ> maxPlayers \<circ> r_settings \<circ> snd) (rooms pit) = [Some (- 1)]"
  by (simp_all add: pit_def minus_msg_def run_simps)

lemma den_flap_facts:
  "sched (env den_flap) = [(11000, RoomGc ''a''), (16000, RoomGc ''b'')]"
  "rooms (step (11000, Fire 0) den_flap) = []"
  by (simp_all add: den_flap_def duo_msg_def run_simps)

lemma den_back_players:
  "map (map fst \<circ> players \<circ> snd) (rooms den_left) = [[]]"
  "map (map fst \<circ> players \<circ> snd) (rooms den_back) = [[''b'']]"
  by (simp_all add: den_left_def den_back_def duo_msg_def run_simps)

lemma run_snoc: "run (evs @ [e]) s = step e (run evs s)"
  by (simp add: run_def)

lemma socket_room_env: "socket_room (s\<lparr>env := w\<rparr>) sid = socket_room s sid"
  by (auto simp: socket_room_def split: option.splits)

lemma fire_room_timer:
  assumes reach: "s = run evs (start r u t0)"
    and room: "socket_room s sid = Some (rid, room)"
    and pending: "n < length (sched (env s))" "sched (env s) ! n = (due, RoomGc sid)"
  shows "t < due \<Longrightarrow> rooms (step (t, Fire n) s) = rooms s"
    and "due \<le> t \<Longrightarrow> countPlayers room = 0 \<Longrightarrow> map_of (rooms (step (t, Fire n) s)) rid = None"
    and "due \<le> t \<Longrightarrow> countPlayers room \<noteq> 0 \<Longrightarrow> rooms (step (t, Fire n) s) = rooms s"
proof -
  have id: "r_id room = rid"
    using reach room by (rule reachable_ids)
  have sr: "socket_room (s\<lparr>env := w\<rparr>) sid = Some (rid, room)" for w
    using room by (simp add: socket_room_env)
  show "t < due \<Longrightarrow> rooms (step (t, Fire n) s) = rooms s"
    using pending by (simp add: step_def fire_def)
  show "due \<le> t \<Longrightarrow> countPlayers room = 0 \<Longrightarrow> map_of (rooms (step (t, Fire n) s)) rid = None"
    using pending sr id by (simp add: step_def fire_def delete_conv')
  show "due \<le> t \<Longrightarrow> countPlayers room \<noteq> 0 \<Longrightarrow> rooms (step (t, Fire n) s) = rooms s"
    using pending sr by (simp add: step_def fire_def)
qed

lemma disconnect_effect:
  assumes "socket_room s sid = Some (rid, room)"
  shows "rooms (step (t, Disconnect sid) s)
           = AList.update rid (room\<lparr>players := AList.delete sid (players room)\<rparr>) (rooms s)"
    and "sched (env (step (t, Disconnect sid) s)) = sched (env s) @ [(t + 10000, RoomGc sid)]"
    and "sockdata (step (t, Disconnect sid) s) = sockdata s"
  using assms
  by (simp_all add: step_def on_disconnect_def setTimeout_def put_room_def socket_room_env)

subsection \<open>What the passes of a tick do to the bullets\<close>






















section \<open>Properties of the specification, checked on the code\<close>

text \<open>
  \<^bold>\<open>C5\<close> (cooldown gate). A player invokes one of the four abilities at \<open>t1\<close>, when
  it is ready, and again at \<open>t2\<close> with \<open>t1 < t2\<close> and \<open>t2\<close> before the expiry set
  at \<open>t1\<close>. The first invocation sets the expiry to \<open>t1\<close> plus the cooldown and makes
  its one set of changes (nine bullets for burst, one bomb for grenade, one effect for dash
  and for beam); the second returns room, player and outside world exactly as it found
  them, the expiry included.
\<close>

theorem ability_cooldown_idempotent:
  assumes ty: "ty \<in> {''burst'', ''dash'', ''grenade'', ''beam''}"
    and ready: "ready_at ty p \<le> t1"
    and later: "t1 < t2" "t2 < t1 + cooldown_ms ty"
    and first: "useAbility room p ty t1 w = (room1, p1, w1)"
  shows "ready_at ty p1 = t1 + cooldown_ms ty
       \<and> useAbility room1 p1 ty t2 w1 = (room1, p1, w1)
       \<and> (if ty = ''burst'' then length (bullets room1) = length (bullets room) + 9
          else if ty = ''grenade'' then length (bombs room1) = length (bombs room) + 1
          else length (effects room1) = length (effects room) + 1)"
proof -
  have cd: "ready_at ty p1 = t1 + cooldown_ms ty"
  proof -
    consider "ty = ''burst''" | "ty = ''dash''" | "ty = ''grenade''" | "ty = ''beam''"
      using ty by auto
    then show ?thesis
    proof cases
      case 1
      with ready first show ?thesis
        by (auto simp: useAbility_burst ready_at_def cooldown_ms_def Let_def)
    next
      case 2
      with ready first show ?thesis
        by (auto simp: useAbility_dash ready_at_def cooldown_ms_def Let_def)
    next
      case 3
      with ready first show ?thesis
        by (auto simp: useAbility_grenade ready_at_def cooldown_ms_def Let_def)
    next
      case 4
      with ready first show ?thesis
        by (auto simp: useAbility_beam ready_at_def cooldown_ms_def Let_def beam_loop_cd)
    qed
  qed
  have again: "useAbility room1 p1 ty t2 w1 = (room1, p1, w1)"
    using cd later(2) by (intro useAbility_gated) simp
  have once: "if ty = ''burst'' then length (bullets room1) = length (bullets room) + 9
          else if ty = ''grenade'' then length (bombs room1) = length (bombs room) + 1
          else length (effects room1) = length (effects room) + 1"
  proof -
    consider "ty = ''burst''" | "ty = ''dash''" | "ty = ''grenade''" | "ty = ''beam''"
      using ty by auto
    then show ?thesis
    proof cases
      case 1
      with ready first show ?thesis
        by (auto simp: useAbility_burst ready_at_def Let_def length_burst)
    next
      case 2
      with ready first show ?thesis
        by (auto simp: useAbility_dash ready_at_def Let_def)
    next
      case 3
      with ready first show ?thesis
        by (auto simp: useAbility_grenade ready_at_def Let_def)
    next
      case 4
      have "length (effects (fst (downfrom n (beam_step a b c d) s))) = length (effects (fst s))"
        for n a b c d s
        by (rule downfrom_inv) (auto simp: beam_step_def Let_def)
      with 4 ready first show ?thesis
        by (auto simp: useAbility_beam ready_at_def Let_def)
    qed
  qed
  from cd again once show ?thesis by blast
qed

theorem ability_cooldown_idempotent_witness:
  "ready_at ''grenade'' alice \<le> 1000
   \<and> useAbility (fst (useAbility arena alice ''grenade'' 1000 sample_io))
        (fst (snd (useAbility arena alice ''grenade'' 1000 sample_io))) ''grenade'' 2000
        (snd (snd (useAbility arena alice ''grenade'' 1000 sample_io)))
      = useAbility arena alice ''grenade'' 1000 sample_io
   \<and> length (bombs (fst (useAbility arena alice ''grenade'' 1000 sample_io))) = 1"
proof -
  have ready: "ready_at ''grenade'' alice \<le> 1000"
    by (simp add: ready_at_def alice_def new_player_def)
  have bombs0: "bombs arena = []"
    by (simp add: arena_def createRoom_def Let_def)
  show ?thesis
    using ability_cooldown_idempotent [of "''grenade''" alice 1000 2000 arena sample_io
        "fst (useAbility arena alice ''grenade'' 1000 sample_io)"
        "fst (snd (useAbility arena alice ''grenade'' 1000 sample_io))"
        "snd (snd (useAbility arena alice ''grenade'' 1000 sample_io))"] ready bombs0
    by (simp add: cooldown_ms_def)
qed

text \<open>
  \<^bold>\<open>C3\<close> (capacity), as the code has it. The server stores the \<open>maxPlayers\<close> of the
  first join as it arrives. After any sequence of joins, inputs, abilities, disconnects,
  ticks and timers, every room of the registry whose \<open>maxPlayers\<close> is a whole number
  holds at most that many players. A join that names a room whose player count has
  reached its \<open>maxPlayers\<close> is answered with \<open>joinDenied\<close> and leaves the whole server
  state, the room included, as it was.
\<close>

theorem room_capacity:
  "(\<forall>(rid, room) \<in> set (rooms (run evs (start r u t0))).
      \<forall>m. to_number (maxPlayers (r_settings room)) = Some m \<and> whole_number m \<longrightarrow>
        real (countPlayers room) \<le> m)
   \<and> (map_of (rooms s) (join_roomId msg) = Some full
        \<and> to_number (maxPlayers (r_settings full)) = Some cap \<and> cap \<le> real (countPlayers full)
      \<longrightarrow> on_join sid msg s = (s, JoinDenied ''Room full''))"
proof -
  have "registry_ok (run evs (start r u t0))"
    by (rule registry_ok_run) (rule registry_ok_start)
  then have inv: "\<forall>(rid, room) \<in> set (rooms (run evs (start r u t0))).
      \<forall>m. to_number (maxPlayers (r_settings room)) = Some m \<and> whole_number m \<longrightarrow>
        real (countPlayers room) \<le> m"
    by (auto simp: registry_ok_def room_ok_def within_capacity_def list_all_iff)
  have deny: "on_join sid msg s = (s, JoinDenied ''Room full'')"
    if "map_of (rooms s) (join_roomId msg) = Some full"
      and "to_number (maxPlayers (r_settings full)) = Some cap" and "cap \<le> real (countPlayers full)"
    using that by (simp add: on_join_def getOrCreateRoom_def count_reaches_def)
  from inv deny show ?thesis by blast
qed

theorem room_capacity_witness:
  "to_number (maxPlayers (r_settings lobby_room)) = Some 1 \<and> whole_number 1
   \<and> real (countPlayers lobby_room) \<le> 1
   \<and> on_join ''b'' solo_msg lobby1 = (lobby1, JoinDenied ''Room full'')"
proof -
  have mem: "(''lobby'', lobby_room) \<in> set (rooms lobby1)"
    by (simp add: lobby1_rooms)
  have look: "map_of (rooms lobby1) (join_roomId solo_msg) = Some lobby_room"
    by (simp add: lobby1_rooms join_roomId_def solo_msg_def)
  have cap: "to_number (maxPlayers (r_settings lobby_room)) = Some 1"
    by (simp add: lobby_room_def createRoom_def Let_def js_number_def)
  have whole: "whole_number 1"
    by (simp add: whole_number_def)
  have full: "1 \<le> real (countPlayers lobby_room)"
    by (simp add: lobby_room_def countPlayers_def)
  note all = room_capacity [of "[(0, Join ''a'' solo_msg)]" "\<lambda>n. 1 / 2"
      "\<lambda>n. replicate (Suc n) CHR ''u''" 0 lobby1 solo_msg lobby_room 1 "''b''"]
  have "real (countPlayers lobby_room) \<le> 1"
    using all [THEN conjunct1] mem cap whole by (auto simp: lobby1_def boot_def)
  moreover have "on_join ''b'' solo_msg lobby1 = (lobby1, JoinDenied ''Room full'')"
    using all [THEN conjunct2] look cap full by simp
  ultimately show ?thesis
    using cap whole by simp
qed

text \<open>
  Without the restriction to whole numbers the bound fails. A room created with
  \<open>maxPlayers = 1.5\<close> admits a second player, since \<open>1 >= 1.5\<close> is false, and then holds
  two; a room created with \<open>maxPlayers = -1\<close> is registered with no player, and \<open>0\<close> is
  more than \<open>-1\<close>.
\<close>

theorem room_capacity_counterexample:
  "map fst (rooms loft) = [''loft'']
   \<and> map (to_number \<circ> maxPlayers \<circ> r_settings \<circ> snd) (rooms loft) = [Some (3 / 2)]
   \<and> map (countPlayers \<circ> snd) (rooms loft) = [2]
   \<and> \<not> real 2 \<le> 3 / 2
   \<and> map fst (rooms pit) = [''pit'']
   \<and> map (to_number \<circ> maxPlayers \<circ> r_settings \<circ> snd) (rooms pit) = [Some (- 1)]
   \<and> map (countPlayers \<circ> snd) (rooms pit) = [0]
   \<and> \<not> real 0 \<le> - 1"
  by (simp add: loft_facts pit_facts)

text \<open>
  \<^bold>\<open>C2\<close> (contact under a shield), as the code has it. In the contact step a player whose
  shield is still active (\<open>now < shieldUntil\<close>) and who overlaps a monster keeps the whole
  player record: position, kill counter and also the expiry of the invulnerability
  window. The window is set to \<open>now + 1000\<close> only together with the penalty.
\<close>

theorem shield_blocks_contact:
  assumes "map_of (players room) k = Some p"
    and "now < shieldUntil (p_buffs p)"
    and "collided_with p (monsters room)"
  shows "map_of (players (fst (monsters_vs_players now (room, w)))) k = Some p"
  unfolding monsters_vs_players_def prod.case
proof (rule for_in_inv)
  show "map_of (players (fst (room, w))) k = Some p"
    using assms(1) by simp
next
  fix k' and s :: "room \<times> io"
  assume "map_of (players (fst s)) k = Some p"
  then show "map_of (players (fst (contact_step now k' s))) k = Some p"
    using contact_step_shielded [of "fst s" k p now k' "snd s"] assms(2) by simp
qed

theorem shield_blocks_contact_witness:
  "map_of (players (fst (monsters_vs_players 1000 (contact_room, sample_io)))) ''alice'' = Some guarded"
proof -
  have a: "map_of (players contact_room) ''alice'' = Some guarded"
    by (simp add: contact_room_def)
  have b: "1000 < shieldUntil (p_buffs guarded)"
    by (simp add: guarded_def)
  have c: "collided_with guarded (monsters contact_room)"
    by (simp add: contact_room_def guarded_def alice_def new_player_def monster_at_def
        circleCollide_def PLAYER_RADIUS_def)
  show ?thesis
    by (rule shield_blocks_contact [OF a b c])
qed

text \<open>
  The specification asks for the window to be refreshed to \<open>now + 1000\<close> although the
  shield blocked the contact. One whole tick at \<open>now = 1000\<close> on a room where a shielded
  player stands on a monster leaves the expiry at \<open>0\<close>.
\<close>

theorem shield_contact_counterexample:
  "map_of (players contact_room) ''alice'' = Some guarded
   \<and> 1000 < shieldUntil (p_buffs guarded)
   \<and> collided_with guarded (monsters contact_room)
   \<and> map_option iFramesUntil
        (map_of (players (fst (updateRoom contact_room (1 / 60) 1000 sample_io))) ''alice'') = Some 0
   \<and> map_option iFramesUntil
        (map_of (players (fst (updateRoom contact_room (1 / 60) 1000 sample_io))) ''alice'')
       \<noteq> Some (1000 + 1000)"
proof -
  have c: "collided_with guarded (monsters contact_room)"
    by (simp add: contact_room_def guarded_def alice_def new_player_def monster_at_def
        circleCollide_def PLAYER_RADIUS_def)
  have i: "iFramesUntil guarded = 0"
    by (simp add: guarded_def alice_def new_player_def)
  show ?thesis
    using c i by (simp add: updateRoom_contact_room) (simp add: contact_room_def guarded_def)
qed

text \<open>
  \<^bold>\<open>C9\<close> (idle rooms), as the code has it. In any state the server can reach, the
  disconnect at time \<open>t\<close> of a socket whose room is registered removes its player at once
  and asks for a timer due at \<open>t + 10000\<close>. That timer does nothing before it is due;
  once due it reads the room again: a room without players at that moment is deleted
  from the registry, a room with at least one player at that moment stays and the
  registry is not changed. The same holds, in any state the server can reach, for the
  pending timer of an earlier disconnect of any socket whose room is registered,
  whatever has happened in between. That a due timer does fire is the promise of the
  event loop and is taken as given.
\<close>

theorem idle_room_collected:
  assumes reach: "s = run evs (start r u t0)"
    and room: "socket_room s sid = Some (rid, room)"
    and gone: "s' = step (t, Disconnect sid) s"
    and left: "left = room\<lparr>players := AList.delete sid (players room)\<rparr>"
  shows "map_of (rooms s') rid = Some left
       \<and> sched (env s') = sched (env s) @ [(t + 10000, RoomGc sid)]
       \<and> (t' < t + 10000 \<longrightarrow> rooms (step (t', Fire (length (sched (env s)))) s') = rooms s')
       \<and> (t + 10000 \<le> t' \<and> countPlayers left = 0 \<longrightarrow>
            map_of (rooms (step (t', Fire (length (sched (env s)))) s')) rid = None)
       \<and> (t + 10000 \<le> t' \<and> countPlayers left \<noteq> 0 \<longrightarrow>
            rooms (step (t', Fire (length (sched (env s)))) s') = rooms s')
       \<and> (n < length (sched (env s)) \<and> sched (env s) ! n = (due, RoomGc old)
            \<and> socket_room s old = Some (old_rid, old_room) \<longrightarrow>
            (t' < due \<longrightarrow> rooms (step (t', Fire n) s) = rooms s)
          \<and> (due \<le> t' \<and> countPlayers old_room = 0 \<longrightarrow>
                map_of (rooms (step (t', Fire n) s)) old_rid = None)
          \<and> (due \<le> t' \<and> countPlayers old_room \<noteq> 0 \<longrightarrow>
                rooms (step (t', Fire n) s) = rooms s))"
proof -
  let ?n0 = "length (sched (env s))"
  have reach': "s' = run (evs @ [(t, Disconnect sid)]) (start r u t0)"
    using reach gone by (simp add: run_snoc)
  have rooms': "map_of (rooms s') rid = Some left"
    using disconnect_effect(1) [OF room, of t] gone left by (simp add: update_conv')
  have sched': "sched (env s') = sched (env s) @ [(t + 10000, RoomGc sid)]"
    using disconnect_effect(2) [OF room, of t] gone by simp
  have data: "sockdata s sid = Some rid"
    using room by (auto simp: socket_room_def split: option.splits)
  have room': "socket_room s' sid = Some (rid, left)"
    using rooms' data disconnect_effect(3) [OF room, of t] gone by (simp add: socket_room_def)
  have pend: "?n0 < length (sched (env s'))" "sched (env s') ! ?n0 = (t + 10000, RoomGc sid)"
    by (simp_all add: sched')
  note now = fire_room_timer [OF reach' room' pend, of t']
  have later: "n < length (sched (env s)) \<and> sched (env s) ! n = (due, RoomGc old)
            \<and> socket_room s old = Some (old_rid, old_room) \<longrightarrow>
            (t' < due \<longrightarrow> rooms (step (t', Fire n) s) = rooms s)
          \<and> (due \<le> t' \<and> countPlayers old_room = 0 \<longrightarrow>
                map_of (rooms (step (t', Fire n) s)) old_rid = None)
          \<and> (due \<le> t' \<and> countPlayers old_room \<noteq> 0 \<longrightarrow>
                rooms (step (t', Fire n) s) = rooms s)"
    using fire_room_timer [OF reach, of old old_rid old_room n due t'] by blast
  from rooms' sched' now later show ?thesis by blast
qed

theorem idle_room_collected_witness:
  "rooms (step (10999, Fire 0) den_left) = rooms den_left
   \<and> map_of (rooms den_left) ''den'' \<noteq> None
   \<and> sched (env den_left) = [(11000, RoomGc ''a'')]
   \<and> map_of (rooms (step (11000, Fire 0) den_left)) ''den'' = None
   \<and> rooms (step (11000, Fire 0) den_back) = rooms den_back
   \<and> map_of (rooms den_back) ''den'' \<noteq> None"
proof -
  have d1: "den1 = run [(0, Join ''a'' duo_msg)] (start (\<lambda>n. 1 / 2) (\<lambda>n. replicate (Suc n) CHR ''u'') 0)"
    by (simp add: den1_def boot_def)
  have b: "den_back = run [(0, Join ''a'' duo_msg), (1000, Disconnect ''a''), (5000, Join ''b'' duo_msg)]
             (start (\<lambda>n. 1 / 2) (\<lambda>n. replicate (Suc n) CHR ''u'') 0)"
    by (simp add: den_back_def boot_def)
  have "sockdata den1 ''a'' = Some ''den''"
    by (simp add: den1_def duo_msg_def run_simps)
  then have r1: "socket_room den1 ''a'' = Some (''den'', den_room)"
    by (simp add: socket_room_def den1_rooms)
  have l: "den_left = step (1000, Disconnect ''a'') den1"
    by (simp add: den_left_def den1_def run_def)
  have s1: "sched (env den1) = []"
    by (simp add: den1_def duo_msg_def run_simps)
  have e: "countPlayers (den_room\<lparr>players := AList.delete ''a'' (players den_room)\<rparr>) = 0"
    by (simp add: den_room_def countPlayers_def)
  have f: "countPlayers (den_room\<lparr>players := [(''b'', new_player 1 ''b'' (1200, 900) (1 / 2))]\<rparr>) \<noteq> 0"
    by (simp add: countPlayers_def)
  note early = idle_room_collected [OF d1 r1 l refl, where t' = 10999]
  note ontime = idle_room_collected [OF d1 r1 l refl, where t' = 11000]
  note kept = idle_room_collected [OF b den_back_facts(3) refl refl,
      where t = 6000 and t' = 11000 and n = 0 and due = 11000 and old = "''a''"
        and old_rid = "''den''"
        and old_room = "den_room\<lparr>players := [(''b'', new_player 1 ''b'' (1200, 900) (1 / 2))]\<rparr>"]
  have w1: "rooms (step (10999, Fire 0) den_left) = rooms den_left"
    using early [THEN conjunct2, THEN conjunct2, THEN conjunct1] by (simp add: s1)
  have w2: "map_of (rooms den_left) ''den'' \<noteq> None"
    using early [THEN conjunct1] by simp
  have w3: "sched (env den_left) = [(11000, RoomGc ''a'')]"
    using early [THEN conjunct2, THEN conjunct1] by (simp add: s1)
  have w4: "map_of (rooms (step (11000, Fire 0) den_left)) ''den'' = None"
    using ontime [THEN conjunct2, THEN conjunct2, THEN conjunct2, THEN conjunct1] e by (simp add: s1)
  have w5: "rooms (step (11000, Fire 0) den_back) = rooms den_back"
    using kept [THEN conjunct2, THEN conjunct2, THEN conjunct2, THEN conjunct2, THEN conjunct2] f
    by (simp add: den_back_facts(1,2))
  have w6: "map_of (rooms den_back) ''den'' \<noteq> None"
    using den_back_facts(2) by (auto dest: socket_room_SomeD)
  from w1 w2 w3 w4 w5 w6 show ?thesis by simp
qed

text \<open>
  It is the player count at the moment the timer fires that decides, not whether the room
  gained a player since the disconnect. Socket \<open>a\<close> leaves at 1000 and the room is empty;
  \<open>b\<close> joins at 5000 and leaves at 6000; the timer of \<open>a\<close>, due at 11000, finds the room
  empty and deletes it, although the room gained a player before the timer fired and has
  been empty for five seconds only.
\<close>

theorem idle_room_counterexample:
  "map (map fst \<circ> players \<circ> snd) (rooms den_left) = [[]]
   \<and> map (map fst \<circ> players \<circ> snd) (rooms den_back) = [[''b'']]
   \<and> sched (env den_flap) = [(11000, RoomGc ''a''), (16000, RoomGc ''b'')]
   \<and> rooms (step (11000, Fire 0) den_flap) = []"
  by (simp add: den_back_players den_flap_facts)

text \<open>
  \<^bold>\<open>C10\<close> (settings are fixed at creation). A join that names a room already in the
  registry leaves that room's settings as they are, whatever settings the message
  carries and whether or not the join is admitted.
\<close>

theorem join_keeps_room_settings:
  assumes "map_of (rooms s) (join_roomId msg) = Some room"
  shows "map_option r_settings (map_of (rooms (fst (on_join sid msg s))) (join_roomId msg))
           = Some (r_settings room)"
  using assms
  by (simp add: on_join_def getOrCreateRoom_def Let_def case_prod_beta update_conv')

theorem join_keeps_room_settings_witness:
  "join_settings greedy_msg = \<lparr>maxPlayers = js_number 4, difficulty = ''Insane''\<rparr>
   \<and> map_option r_settings (map_of (rooms (fst (on_join ''b'' greedy_msg den1))) ''den'')
       = Some \<lparr>maxPlayers = js_number 2, difficulty = ''Easy''\<rparr>"
proof -
  have look: "map_of (rooms den1) (join_roomId greedy_msg) = Some den_room"
    by (simp add: den1_rooms join_roomId_def greedy_msg_def)
  have st: "r_settings den_room = \<lparr>maxPlayers = js_number 2, difficulty = ''Easy''\<rparr>"
    by (simp add: den_room_def createRoom_def Let_def js_number_def)
  from join_keeps_room_settings [OF look, of "''b''"] st
  show ?thesis
    by (simp add: join_roomId_def join_settings_def greedy_msg_def)
qed

text \<open>
  \<^bold>\<open>C8\<close> (population scaler). For a room with \<open>n \<ge> 1\<close> players the factor is
  \<open>1 + 0.35 (n - 1)\<close>. \<open>spawnMonster\<close> does nothing once the room holds
  \<open>16 + 10 (n - 1)\<close> monsters; below that cap it appends one monster whose hit points are
  its type's base hit points times the square root of the factor, rounded, and whose base
  speed is the type's base speed times \<open>0.75 + 0.25\<close> times the factor. A tick calls it
  exactly when more than \<open>2400 / factor\<close> milliseconds have passed since the last spawn.
\<close>

theorem population_scaling:
  assumes "countPlayers room = n" and "1 \<le> n" and "f = 1 + 0.35 * (real n - 1)"
  shows "scaleForPlayers room = (n, f)
       \<and> (16 + 10 * (n - 1) \<le> length (monsters room) \<longrightarrow> spawnMonster room ty w = (room, w))
       \<and> (length (monsters room) < 16 + 10 * (n - 1) \<longrightarrow>
            (\<exists>m. monsters (fst (spawnMonster room ty w)) = monsters room @ [m]
               \<and> m_hp m = js_round (real_of_int (spec_baseHp (ENEMY_TYPES (m_type m))) * sqrt f)
               \<and> m_maxHp m = m_hp m
               \<and> m_baseSpeed m = spec_baseSpeed (ENEMY_TYPES (m_type m)) * (0.75 + 0.25 * f)))
       \<and> monsters (fst (run_spawns room now w)) =
            (if now - lastSpawnAt room > 2400 / f
             then monsters (fst (spawnMonster (room\<lparr>lastSpawnAt := now\<rparr>) None w))
             else monsters room)
       \<and> lastSpawnAt (fst (run_spawns room now w)) =
            (if now - lastSpawnAt room > 2400 / f then now else lastSpawnAt room)"
proof -
  have sc: "scaleForPlayers room = (n, f)"
    using assms by (simp add: scaleForPlayers_eq)
  from sc spawnMonster_full [OF sc] spawnMonster_new [OF sc] run_spawns_gate [OF sc]
  show ?thesis by blast
qed

theorem population_scaling_witness:
  "countPlayers arena = 1
   \<and> length (monsters arena) < 16
   \<and> scaleForPlayers arena = (1, 1)
   \<and> (\<exists>m. monsters (fst (spawnMonster arena None sample_io)) = [m]
          \<and> m_hp m = spec_baseHp (ENEMY_TYPES (m_type m))
          \<and> m_baseSpeed m = spec_baseSpeed (ENEMY_TYPES (m_type m)))
   \<and> lastSpawnAt (fst (run_spawns arena 5000 sample_io)) = 5000"
proof -
  have n: "countPlayers arena = 1"
    by (simp add: arena_def countPlayers_def)
  have ms: "monsters arena = []" and l: "lastSpawnAt arena = 0"
    by (simp_all add: arena_def createRoom_def Let_def)
  have r: "js_round (real_of_int k * sqrt 1) = k" for k
    by (simp add: js_round_def)
  from population_scaling [OF n, of 1 None sample_io 5000]
  show ?thesis
    using n ms l r by auto
qed






text \<open>
  \<^bold>\<open>C1\<close> (splitters). The split is written only in the pass of bullets against
  monsters. A splitter whose hit points are taken by a detonating bomb, or by the beam, is
  removed and leaves nothing: after a tick in which a bomb detonates on a lone splitter the
  room has no monster, and so it has after a beam through a lone splitter.
\<close>

theorem splitter_killed_without_split:
  "map m_type (monsters vacant) = [Splitter]
   \<and> monsters (fst (updateRoom vacant (1 / 60) 1000 sample_io)) = []
   \<and> map m_type (monsters beam_room) = [Splitter]
   \<and> monsters (fst (useAbility beam_room alice ''beam'' 1000 sample_io)) = []"
  by (simp add: updateRoom_vacant beam_on_splitter) (simp add: vacant_def beam_room_def monster_at_def)

text \<open>
  What does hold: when a bullet takes the last hit point of a splitter, the splitter is
  removed and exactly two monsters of type mini, with mini's base radius, hit points and
  speed, are added at the end of the room's monsters.
\<close>

theorem bullet_kill_splits:
  assumes "j < length (monsters room)" and "m_type (monsters room ! j) = Splitter"
    and "m_hp (monsters room ! j) \<le> 1"
  shows "\<exists>x y. monsters (fst (hit_monster b j (room, w))) = splice1 j (monsters room) @ [x, y]
           \<and> (\<forall>m \<in> {x, y}. m_type m = Mini
                 \<and> m_radius m = spec_radius (ENEMY_TYPES Mini)
                 \<and> m_hp m = spec_baseHp (ENEMY_TYPES Mini)
                 \<and> m_maxHp m = m_hp m
                 \<and> m_baseSpeed m = spec_baseSpeed (ENEMY_TYPES Mini))"
  unfolding hit_monster_split [OF assms] by (simp add: mini_of_def)

theorem bullet_kill_splits_witness:
  "map m_type (monsters split_room) = [Splitter]
   \<and> map (\<lambda>m. (m_type m, m_radius m, m_hp m, m_maxHp m, m_baseSpeed m))
         (monsters (fst (bullet_monster_step 0 (split_room, sample_io))))
       = [(Mini, 10, 1, 1, 170), (Mini, 10, 1, 1, 170)]"
proof -
  have j: "0 < length (monsters split_room)" and t: "m_type (monsters split_room ! 0) = Splitter"
    and h: "m_hp (monsters split_room ! 0) \<le> 1"
    by (simp_all add: split_room_def worn_splitter_def monster_at_def)
  have hit: "hits_monster slug worn_splitter"
    by (simp add: hits_monster_def circleCollide_def slug_def worn_splitter_def monster_at_def)
  have step: "monsters (fst (bullet_monster_step 0 (split_room, sample_io)))
      = monsters (fst (hit_monster slug 0 (split_room, sample_io)))"
    using hit by (simp add: bullet_monster_step_def split_room_def Let_def case_prod_beta)
  from bullet_kill_splits [OF j t h, of slug sample_io]
  show ?thesis
    by (auto simp: step) (simp_all add: split_room_def worn_splitter_def monster_at_def splice1_def)
qed

text \<open>
  \<^bold>\<open>C4\<close> (world bounds). The dash adds 60 units along the facing and does not clamp:
  a player 20 units from the right edge who dashes to the right ends 40 units outside the
  world, until the next tick moves and clamps the player again.
\<close>

theorem dash_leaves_bounds:
  "inside (r_world arena) (p_radius edge) (p_x edge) (p_y edge)
   \<and> dirX edge = 1
   \<and> p_x (fst (snd (useAbility arena edge ''dash'' 1000 sample_io))) = 2440
   \<and> width (r_world arena) = 2400
   \<and> \<not> inside (r_world arena) (p_radius edge)
         (p_x (fst (snd (useAbility arena edge ''dash'' 1000 sample_io))))
         (p_y (fst (snd (useAbility arena edge ''dash'' 1000 sample_io))))"
  by (simp add: useAbility_dash inside_def edge_def alice_def new_player_def arena_def
      createRoom_def Let_def PLAYER_RADIUS_def WORLD_width_def WORLD_height_def)

text \<open>
  What does hold: in a world at least two radii wide and high, the movement of a player
  in a tick, the clamp that ends a monster's turn of the AI, and the wander of a neutral
  each leave the entity inside the world.
\<close>

theorem movement_clamped:
  "(2 * p_radius p \<le> width wd \<and> 2 * p_radius p \<le> height wd \<longrightarrow>
      inside wd (p_radius p) (p_x (integrate_player wd dt now p)) (p_y (integrate_player wd dt now p)))
   \<and> (2 * m_radius m \<le> width wd \<and> 2 * m_radius m \<le> height wd \<longrightarrow>
      inside wd (m_radius m) (m_x (keep_in_bounds wd m)) (m_y (keep_in_bounds wd m)))
   \<and> (2 * n_r n \<le> width wd \<and> 2 * n_r n \<le> height wd \<longrightarrow>
      inside wd (n_r n) (n_x (fst (wander wd dt n w))) (n_y (fst (wander wd dt n w))))"
  using integrate_player_inside [of p wd dt now] keep_in_bounds_inside [of m wd]
    wander_inside [of n wd dt w]
  by blast

theorem movement_clamped_witness:
  "inside (r_world arena) 16 (p_x (integrate_player (r_world arena) (1 / 60) 1000 (edge\<lparr>p_right := True\<rparr>)))
     (p_y (integrate_player (r_world arena) (1 / 60) 1000 (edge\<lparr>p_right := True\<rparr>)))
   \<and> p_x (integrate_player (r_world arena) (1 / 60) 1000 (edge\<lparr>p_right := True\<rparr>)) = 2384"
proof -
  have r: "p_radius (edge\<lparr>p_right := True\<rparr>) = 16"
    by (simp add: edge_def alice_def new_player_def PLAYER_RADIUS_def)
  have wd: "width (r_world arena) = 2400" "height (r_world arena) = 1800"
    by (simp_all add: arena_def createRoom_def Let_def WORLD_width_def WORLD_height_def)
  have x: "p_x (integrate_player (r_world arena) (1 / 60) 1000 (edge\<lparr>p_right := True\<rparr>)) = 2384"
    by (simp add: integrate_player_def normalize_xy_def length_xy_def hypot_def edge_def alice_def
        new_player_def PLAYER_RADIUS_def PLAYER_SPEED_def wd clamp_def Let_def)
  from movement_clamped [of "edge\<lparr>p_right := True\<rparr>" "r_world arena" "1 / 60" 1000]
  show ?thesis
    using r wd x by simp
qed

end
